theory Spec2Isabelle
  imports Main
begin

section \<open>Index values, sets and index sets\<close>

text \<open>
  An index value is a Python object: \<open>None\<close>, a scalar, or a tuple. A scalar and the
  1-tuple holding it are different objects, and the source tests
  \<^verbatim>\<open>type(index) is not tuple\<close> before it slices, so tuples are kept apart from scalars.
\<close>

datatype pyval = PNone | Atom nat | Tup "pyval list"

datatype error = ValueError | KeyError | AttributeError | NameError | TypeError | IndexError

text \<open>
  A Pyomo set: its identity (\<^verbatim>\<open>id(s)\<close>), its \<^verbatim>\<open>dimen\<close> and its members in iteration
  order. The source compares sets with \<^verbatim>\<open>is\<close> and through \<^verbatim>\<open>ComponentSet\<close>, that is,
  by identity only.
\<close>

record pset =
  sid :: nat
  dimen :: nat
  members :: "pyval list"

text \<open>
  The index set of an indexed component is either one set, or a product that keeps the
  tuple of its factors (\<^verbatim>\<open>set_tuple\<close>, \<^verbatim>\<open>subsets()\<close>). A product is an object of its
  own: it is never identical to a set that is passed in as a factor.
  A component that is not indexed has no index set here (\<open>None\<close>), and dimension 0.
\<close>

datatype index_set = SimpleSet pset | SetProduct "pset list"

fun index_dimen :: "index_set \<Rightarrow> nat" where
  "index_dimen (SimpleSet s) = dimen s"
| "index_dimen (SetProduct fs) = sum_list (map dimen fs)"

fun set_tuple :: "index_set \<Rightarrow> pset list option" where
  "set_tuple (SimpleSet s) = None"
| "set_tuple (SetProduct fs) = Some fs"

fun index_set_is :: "index_set \<Rightarrow> pset \<Rightarrow> bool" where
  "index_set_is (SimpleSet s) t = (sid s = sid t)"
| "index_set_is (SetProduct fs) t = False"

definition dim :: "index_set option \<Rightarrow> nat" where
  "dim c = (case c of None \<Rightarrow> 0 | Some ix \<Rightarrow> index_dimen ix)"

definition in_component_set :: "pset \<Rightarrow> pset list \<Rightarrow> bool" where
  "in_component_set s fs = (sid s \<in> set (map sid fs))"

definition tuple_of :: "pyval \<Rightarrow> pyval list" where
  "tuple_of v = (case v of Tup xs \<Rightarrow> xs | _ \<Rightarrow> [v])"

section \<open>Index algebra\<close>

text \<open>
  \<^verbatim>\<open>is_explicitly_indexed_by(comp, *sets)\<close>. Of the component the function reads
  \<^verbatim>\<open>is_indexed()\<close>, \<^verbatim>\<open>dim()\<close> and \<^verbatim>\<open>index_set()\<close>, so the component is given by its
  index set. The last \<^verbatim>\<open>elif c_dim >= total_s_dim\<close> is the negation of the first test.
\<close>

definition is_explicitly_indexed_by :: "index_set option \<Rightarrow> pset list \<Rightarrow> error + bool" where
  "is_explicitly_indexed_by c sets =
     (case c of
        None \<Rightarrow> Inr False
      | Some ix \<Rightarrow>
          if length sets = 0 then Inl ValueError
          else
            let total_s_dim = sum_list (map dimen sets);
                c_dim = index_dimen ix
            in if c_dim < total_s_dim then Inr False
               else if length sets = 1 \<and> dimen (hd sets) = c_dim
                 then Inr (index_set_is ix (hd sets))
               else (case set_tuple ix of
                       None \<Rightarrow> Inr False
                     | Some fs \<Rightarrow> Inr (list_all (\<lambda>s. in_component_set s fs) sets)))"

text \<open>
  \<^verbatim>\<open>get_location_of_coordinate_set(setprod, subset)\<close>: the loop over the factors with its
  three variables \<^verbatim>\<open>i\<close>, \<^verbatim>\<open>found\<close> and \<^verbatim>\<open>loc\<close>; \<^verbatim>\<open>loc\<close> starts as \<^verbatim>\<open>None\<close>.
\<close>

fun subsets :: "index_set \<Rightarrow> pset list" where
  "subsets (SimpleSet s) = [s]"
| "subsets (SetProduct fs) = fs"

fun location_loop :: "pset list \<Rightarrow> pset \<Rightarrow> nat \<Rightarrow> bool \<Rightarrow> nat option \<Rightarrow> error + nat option" where
  "location_loop [] subs i found loc = Inr loc"
| "location_loop (s # ss) subs i found loc =
     (if sid s = sid subs
      then (if found then Inl ValueError
            else location_loop ss subs (i + 1) True (Some i))
      else location_loop ss subs (i + dimen s) found loc)"

definition get_location_of_coordinate_set :: "index_set \<Rightarrow> pset \<Rightarrow> error + nat option" where
  "get_location_of_coordinate_set setprod subs =
     (if dimen subs \<noteq> 1 then Inl ValueError
      else location_loop (subsets setprod) subs 0 False None)"

text \<open>How often a set occurs, by identity, among factors, and the factors before it.\<close>

definition occurrences :: "pset \<Rightarrow> pset list \<Rightarrow> nat" where
  "occurrences s fs = length (filter (\<lambda>f. sid f = sid s) fs)"

definition preceding :: "pset \<Rightarrow> pset list \<Rightarrow> pset list" where
  "preceding s fs = takeWhile (\<lambda>f. sid f \<noteq> sid s) fs"




text \<open>
  \<^verbatim>\<open>_complete_index(loc, index, *newvals)\<close>. \<^verbatim>\<open>loc\<close> is a dictionary, kept as the list of
  its items in insertion order. A slice \<^verbatim>\<open>index[0:i]\<close> past the end of the tuple is the
  whole tuple, as \<open>take\<close> is.
\<close>

fun complete_loop :: "(nat \<times> nat) list \<Rightarrow> nat list \<Rightarrow> pyval list \<Rightarrow> pyval list \<Rightarrow> error + pyval list" where
  "complete_loop loc [] index newvals = Inr index"
| "complete_loop loc (i # ks) index newvals =
     (case map_of loc i of
        None \<Rightarrow> Inl KeyError
      | Some j \<Rightarrow>
          if j < length newvals
          then complete_loop loc ks (take i index @ tuple_of (newvals ! j) @ drop i index) newvals
          else Inl IndexError)"

definition complete_index :: "(nat \<times> nat) list \<Rightarrow> pyval \<Rightarrow> pyval list \<Rightarrow> error + pyval" where
  "complete_index loc index newvals =
     (let keys = sort (map fst loc) in
      if length keys \<noteq> length newvals then Inl ValueError
      else (case complete_loop loc keys (tuple_of index) newvals of
              Inl e \<Rightarrow> Inl e
            | Inr full \<Rightarrow> Inr (Tup full)))"

text \<open>
  \<^verbatim>\<open>get_index_set_except(comp, *sets)\<close>. The result dictionary is a record; its
  \<^verbatim>\<open>set_except\<close> is the list \<^verbatim>\<open>[None]\<close>, one of the component's sets, or the cross
  product of several of them, and its \<^verbatim>\<open>index_getter\<close> is a function.
\<close>

datatype projection = TrivialSet | OneSet pset | CrossSet "pset list"

record info =
  set_except :: projection
  index_getter :: "pyval \<Rightarrow> pyval list \<Rightarrow> error + pyval"

fun first_loc :: "pset list \<Rightarrow> pset \<Rightarrow> nat \<Rightarrow> nat option" where
  "first_loc [] ind_set s_loc = None"
| "first_loc (s # ss) ind_set s_loc =
     (if sid ind_set = sid s then Some s_loc else first_loc ss ind_set (s_loc + 1))"

fun locate_sets :: "pset list \<Rightarrow> pset list \<Rightarrow> nat \<Rightarrow> (nat \<times> nat) list \<times> pset list" where
  "locate_sets [] sets ind_loc = ([], [])"
| "locate_sets (ind_set # rest) sets ind_loc =
     (let (location, other_ind_sets) = locate_sets rest sets (ind_loc + 1) in
      case first_loc sets ind_set 0 of
        Some s_loc \<Rightarrow> ((ind_loc, s_loc) # location, other_ind_sets)
      | None \<Rightarrow> (location, ind_set # other_ind_sets))"

definition trivial_getter :: "(nat \<times> nat) list \<Rightarrow> pyval \<Rightarrow> pyval list \<Rightarrow> error + pyval" where
  "trivial_getter location incomplete_index newvals =
     (if length newvals \<le> 1
      then (case newvals of [] \<Rightarrow> Inl IndexError | v # _ \<Rightarrow> Inr v)
      else if list_all (\<lambda>(i, j). j < length newvals) location
        then Inr (Tup (map (\<lambda>(i, j). newvals ! j) location))
        else Inl IndexError)"

definition get_index_set_except :: "index_set option \<Rightarrow> pset list \<Rightarrow> error + info" where
  "get_index_set_except c sets =
     (let total_s_dim = sum_list (map dimen sets) in
      case is_explicitly_indexed_by c sets of
        Inl e \<Rightarrow> Inl e
      | Inr False \<Rightarrow> Inl ValueError
      | Inr True \<Rightarrow>
          (case c of
             None \<Rightarrow> Inl ValueError
           | Some index_set \<Rightarrow>
               (case (case set_tuple index_set of
                        Some st \<Rightarrow>
                          if list_all (\<lambda>s. occurrences s st = 1) sets
                          then Inr (locate_sets st sets 0)
                          else Inl ValueError
                      | None \<Rightarrow> Inr ([(0, 0)], [])) of
                  Inl e \<Rightarrow> Inl e
                | Inr (location, other_ind_sets) \<Rightarrow>
                    if index_dimen index_set = total_s_dim
                    then Inr \<lparr>set_except = TrivialSet, index_getter = trivial_getter location\<rparr>
                    else if length other_ind_sets = 1
                      then Inr \<lparr>set_except = OneSet (hd other_ind_sets),
                                index_getter = complete_index location\<rparr>
                    else if length other_ind_sets \<ge> 2
                      then Inr \<lparr>set_except = CrossSet other_ind_sets,
                                index_getter = complete_index location\<rparr>
                    else Inl ValueError)))"

text \<open>
  Iterating a set gives its members, iterating a cross product gives the flattened
  tuples of its factors' members, the last factor running fastest, and iterating
  \<^verbatim>\<open>[None]\<close> gives \<^verbatim>\<open>None\<close>.
\<close>

fun cross_members :: "pset list \<Rightarrow> pyval list list" where
  "cross_members [] = [[]]"
| "cross_members (s # ss) =
     concat (map (\<lambda>v. map (\<lambda>rest. tuple_of v @ rest) (cross_members ss)) (members s))"

fun projection_members :: "projection \<Rightarrow> pyval list" where
  "projection_members TrivialSet = [PNone]"
| "projection_members (OneSet s) = members s"
| "projection_members (CrossSet ss) = map Tup (cross_members ss)"

fun projection_dimen :: "projection \<Rightarrow> nat" where
  "projection_dimen TrivialSet = 0"
| "projection_dimen (OneSet s) = dimen s"
| "projection_dimen (CrossSet ss) = sum_list (map dimen ss)"

fun index_members :: "index_set \<Rightarrow> pyval list" where
  "index_members (SimpleSet s) = members s"
| "index_members (SetProduct fs) = map Tup (cross_members fs)"

text \<open>
  The loop every caller writes around the result:
  \<^verbatim>\<open>for index in set_except: index_getter(index, *newvals)\<close>.
\<close>

definition completed_indices :: "index_set option \<Rightarrow> pset list \<Rightarrow> pyval list \<Rightarrow> error + (error + pyval) list" where
  "completed_indices c sets newvals =
     (case get_index_set_except c sets of
        Inl e \<Rightarrow> Inl e
      | Inr i \<Rightarrow> Inr (map (\<lambda>p. index_getter i p newvals) (projection_members (set_except i))))"

section \<open>The hierarchy, seen upwards\<close>

text \<open>
  Functions that climb (\<^verbatim>\<open>parent_block()\<close>, \<^verbatim>\<open>parent_component()\<close>) read, of every block
  data above a component, the local name and index set of the block it belongs to, its
  own index in that block, and the identities of the two objects. The chain of these
  levels starts at the component's \<^verbatim>\<open>parent_block()\<close> and ends at the top-level model,
  whose \<^verbatim>\<open>parent_block()\<close> is \<^verbatim>\<open>None\<close>. A scalar block is its own data: it has no index
  set and the index \<^verbatim>\<open>None\<close>.
\<close>

record level =
  lname :: string
  lset :: "index_set option"
  lindex :: pyval
  lid :: nat
  lcid :: nat

text \<open>
  A component or component data object as the climbing functions see it: the chain
  above it, the local name and the index set of its \<^verbatim>\<open>parent_component()\<close>, its own
  \<^verbatim>\<open>index()\<close> (absent for an indexed component, which has no attribute \<^verbatim>\<open>index\<close>), and
  its identity.
\<close>

record cref =
  chain :: "level list"
  local_name :: string
  own_set :: "index_set option"
  own_index :: "pyval option"
  oid :: nat

text \<open>\<^verbatim>\<open>is_implicitly_indexed_by(comp, s, stop_at)\<close>: the loop over the parents.\<close>

fun implicit_walk :: "level list \<Rightarrow> pset \<Rightarrow> nat option \<Rightarrow> bool" where
  "implicit_walk [] s stop_at = False"
| "implicit_walk (parent # up) s stop_at =
     (if Some (lid parent) = stop_at then False
      else if Some (lcid parent) = stop_at then False
      else if is_explicitly_indexed_by (lset parent) [s] = Inr True then True
      else implicit_walk up s stop_at)"

definition is_implicitly_indexed_by :: "cref \<Rightarrow> pset \<Rightarrow> nat option \<Rightarrow> bool" where
  "is_implicitly_indexed_by c s stop_at = implicit_walk (chain c) s stop_at"

text \<open>
  \<^verbatim>\<open>get_index_of_set(comp, wrt)\<close>, for a data object given by the index set of its
  \<^verbatim>\<open>parent_component()\<close> and its own \<^verbatim>\<open>index()\<close>. Subscripting a tuple with \<^verbatim>\<open>None\<close> is a
  \<^verbatim>\<open>TypeError\<close>, past its end an \<^verbatim>\<open>IndexError\<close>.
\<close>

definition get_index_of_set :: "index_set option \<Rightarrow> pyval \<Rightarrow> pset \<Rightarrow> error + pyval" where
  "get_index_of_set parent index wrt =
     (case is_explicitly_indexed_by parent [wrt] of
        Inl e \<Rightarrow> Inl e
      | Inr False \<Rightarrow> Inl ValueError
      | Inr True \<Rightarrow>
          (case parent of
             None \<Rightarrow> Inl ValueError
           | Some ix \<Rightarrow>
               (case get_location_of_coordinate_set ix wrt of
                  Inl e \<Rightarrow> Inl e
                | Inr None \<Rightarrow> Inl TypeError
                | Inr (Some loc) \<Rightarrow>
                    if loc < length (tuple_of index) then Inr (tuple_of index ! loc)
                    else Inl IndexError)))"

text \<open>
  \<^verbatim>\<open>get_implicit_index_of_set(comp, wrt)\<close>: the test of the owning component, then the
  \<^verbatim>\<open>while\<close> loop over every parent block, with the variables \<^verbatim>\<open>val\<close> and \<^verbatim>\<open>found\<close>.
\<close>

fun implicit_index_loop :: "level list \<Rightarrow> pset \<Rightarrow> pyval \<Rightarrow> bool \<Rightarrow> error + pyval" where
  "implicit_index_loop [] wrt val found = Inr val"
| "implicit_index_loop (parent_block # up) wrt val found =
     (case is_explicitly_indexed_by (lset parent_block) [wrt] of
        Inl e \<Rightarrow> Inl e
      | Inr True \<Rightarrow>
          if found then Inl ValueError
          else (case get_index_of_set (lset parent_block) (lindex parent_block) wrt of
                  Inl e \<Rightarrow> Inl e
                | Inr v \<Rightarrow> implicit_index_loop up wrt v True)
      | Inr False \<Rightarrow> implicit_index_loop up wrt val found)"

definition get_implicit_index_of_set :: "index_set option \<Rightarrow> pyval \<Rightarrow> level list \<Rightarrow> pset \<Rightarrow> error + pyval" where
  "get_implicit_index_of_set owner index ancestors wrt =
     (case is_explicitly_indexed_by owner [wrt] of
        Inl e \<Rightarrow> Inl e
      | Inr True \<Rightarrow>
          (case get_index_of_set owner index wrt of
             Inl e \<Rightarrow> Inl e
           | Inr v \<Rightarrow> implicit_index_loop ancestors wrt v True)
      | Inr False \<Rightarrow> implicit_index_loop ancestors wrt PNone False)"

text \<open>
  Who carries a set explicitly, among the owning component and the blocks above it, each
  with the index of the data object on the way up.
\<close>

definition carriers :: "index_set option \<Rightarrow> pyval \<Rightarrow> level list \<Rightarrow> pset \<Rightarrow> (index_set option \<times> pyval) list" where
  "carriers owner index ancestors wrt =
     filter (\<lambda>(c, i). is_explicitly_indexed_by c [wrt] = Inr True)
       ((owner, index) # map (\<lambda>b. (lset b, lindex b)) ancestors)"

text \<open>
  \<^verbatim>\<open>path_from_block(comp, blk, include_comp)\<close>. \<^verbatim>\<open>blk\<close> is compared by identity. A
  component without a parent block makes the first pass of the loop call a method of
  \<^verbatim>\<open>None\<close>, an \<^verbatim>\<open>AttributeError\<close>.
\<close>

type_synonym route = "(string \<times> pyval) list"

fun path_walk :: "level list \<Rightarrow> nat \<Rightarrow> route \<Rightarrow> route" where
  "path_walk [] blk route = route"
| "path_walk (parent_data # up) blk route =
     (if lid parent_data = blk then route
      else if up = [] then (lname parent_data, lindex parent_data) # route
      else path_walk up blk ((lname parent_data, lindex parent_data) # route))"

definition path_from_block :: "cref \<Rightarrow> nat \<Rightarrow> bool \<Rightarrow> error + route" where
  "path_from_block c blk include_comp =
     (if chain c = [] then Inl AttributeError
      else
        let route = path_walk (chain c) blk [] in
        if include_comp
        then (case own_index c of
                Some i \<Rightarrow> Inr (route @ [(local_name c, i)])
              | None \<Rightarrow> Inr (route @ [(local_name c, PNone)]))
        else Inr route)"

section \<open>The hierarchy, seen downwards\<close>

text \<open>
  A block data object holds named components; a component holds its data objects by
  index. A scalar component has the one index \<^verbatim>\<open>None\<close>. Variable and constraint data
  hold no components. Every object has an identity; the mutable fields of the data
  objects (value, fixed, active) live in a store keyed by identity.
\<close>

datatype ctype = Var | Constraint | Block

datatype component = Component (ctype: ctype) (cid: nat) (comp_set: "index_set option")
    (cdata: "(pyval \<times> cdata) list")
  and cdata = ComponentData (did: nat) (children: "(string \<times> component) list")

text \<open>
  \<^verbatim>\<open>getattr(block, name)\<close> and \<^verbatim>\<open>component[index]\<close>. Pyomo flattens a tuple index and
  unwraps a 1-tuple before it looks the index up.
\<close>

definition getattr :: "cdata \<Rightarrow> string \<Rightarrow> error + component" where
  "getattr parent name =
     (case map_of (children parent) name of None \<Rightarrow> Inl AttributeError | Some c \<Rightarrow> Inr c)"

fun flatten :: "pyval \<Rightarrow> pyval list" where
  "flatten (Tup xs) = concat (map flatten xs)"
| "flatten v = [v]"

definition normalize_index :: "pyval \<Rightarrow> pyval" where
  "normalize_index idx =
     (case idx of
        Tup xs \<Rightarrow> (case flatten idx of [v] \<Rightarrow> v | vs \<Rightarrow> Tup vs)
      | _ \<Rightarrow> idx)"

definition getitem :: "component \<Rightarrow> pyval \<Rightarrow> error + cdata" where
  "getitem c idx =
     (case map_of (cdata c) (normalize_index idx) of None \<Rightarrow> Inl KeyError | Some d \<Rightarrow> Inr d)"

text \<open>
  \<^verbatim>\<open>find_comp_in_block(tgt_block, src_block, src_comp, allow_miss)\<close>: the loop over the
  route with its \<^verbatim>\<open>try\<close>, then the two guarded lookups of the component itself.
\<close>

datatype entity = IndexedComponent component | DataObject cdata

fun find_loop :: "cdata \<Rightarrow> route \<Rightarrow> bool \<Rightarrow> error + cdata option" where
  "find_loop local_parent [] allow_miss = Inr (Some local_parent)"
| "find_loop local_parent (r # rs) allow_miss =
     (case (case getattr local_parent (fst r) of
              Inl e \<Rightarrow> Inl e
            | Inr c \<Rightarrow> getitem c (snd r)) of
        Inl e \<Rightarrow> if allow_miss then Inr None else Inl e
      | Inr d \<Rightarrow> find_loop d rs allow_miss)"

definition find_comp_in_block :: "cdata \<Rightarrow> nat \<Rightarrow> cref \<Rightarrow> bool \<Rightarrow> error + entity option" where
  "find_comp_in_block tgt_block src_block src_comp allow_miss =
     (case path_from_block src_comp src_block False of
        Inl e \<Rightarrow> Inl e
      | Inr route \<Rightarrow>
          (case find_loop tgt_block route allow_miss of
             Inl e \<Rightarrow> Inl e
           | Inr None \<Rightarrow> Inr None
           | Inr (Some local_parent) \<Rightarrow>
               (case getattr local_parent (local_name src_comp) of
                  Inl e \<Rightarrow> if allow_miss then Inr None else Inl e
                | Inr tgt_comp \<Rightarrow>
                    (case own_index src_comp of
                       None \<Rightarrow> Inr (Some (IndexedComponent tgt_comp))
                     | Some index \<Rightarrow>
                         (case getitem tgt_comp index of
                            Inl e \<Rightarrow> if allow_miss then Inr None else Inl e
                          | Inr d \<Rightarrow> Inr (Some (DataObject d)))))))"

text \<open>
  What a route leads to in a hierarchy, step by step: the name among the children, then
  the index among the data of the component found.
\<close>

fun resolve :: "cdata \<Rightarrow> route \<Rightarrow> cdata option" where
  "resolve b [] = Some b"
| "resolve b ((name, idx) # rs) =
     (case map_of (children b) name of
        None \<Rightarrow> None
      | Some c \<Rightarrow>
          (case map_of (cdata c) (normalize_index idx) of
             None \<Rightarrow> None
           | Some d \<Rightarrow> resolve d rs))"

definition corresponding :: "cdata \<Rightarrow> route \<Rightarrow> string \<Rightarrow> pyval option \<Rightarrow> entity option" where
  "corresponding tgt route name idx =
     (case resolve tgt route of
        None \<Rightarrow> None
      | Some b \<Rightarrow>
          (case map_of (children b) name of
             None \<Rightarrow> None
           | Some c \<Rightarrow>
               (case idx of
                  None \<Rightarrow> Some (IndexedComponent c)
                | Some i \<Rightarrow> map_option DataObject (map_of (cdata c) (normalize_index i)))))"

section \<open>The store and the traversals\<close>

text \<open>
  The mutable fields of the data objects, by identity: the value of a variable (\<^verbatim>\<open>None\<close>
  when it has none), its \<^verbatim>\<open>fixed\<close> flag, the \<^verbatim>\<open>active\<close> flag of a constraint, a block or
  their data, and the warnings logged so far. Values are only copied, never computed
  with; they are integers here.
\<close>

record store =
  var_value :: "nat \<Rightarrow> int option"
  fixed :: "nat \<Rightarrow> bool"
  active :: "nat \<Rightarrow> bool"
  warnings :: "string list"

definition set_value :: "store \<Rightarrow> nat \<Rightarrow> int option \<Rightarrow> store" where
  "set_value st d v = st\<lparr>var_value := (var_value st)(d := v)\<rparr>"

definition warning :: "store \<Rightarrow> string \<Rightarrow> store" where
  "warning st msg = st\<lparr>warnings := warnings st @ [msg]\<rparr>"

text \<open>
  A \<^verbatim>\<open>for\<close> loop whose body may raise: the state at the raise is kept, as the objects
  mutated so far stay mutated. \<open>None\<close> is normal completion of the body, \<^verbatim>\<open>continue\<close>
  included.
\<close>

fun for_each :: "('a \<Rightarrow> 's \<Rightarrow> 's \<times> error option) \<Rightarrow> 'a list \<Rightarrow> 's \<Rightarrow> 's \<times> error option" where
  "for_each body [] s = (s, None)"
| "for_each body (x # xs) s =
     (case body x s of
        (s', None) \<Rightarrow> for_each body xs s'
      | (s', Some e) \<Rightarrow> (s', Some e))"

text \<open>
  A component found by a traversal: the chain above it (its \<^verbatim>\<open>parent_block()\<close> first), its
  local name, and the component.
\<close>

type_synonym lcomp = "level list \<times> string \<times> component"

definition block_level :: "string \<Rightarrow> component \<Rightarrow> pyval \<Rightarrow> cdata \<Rightarrow> level" where
  "block_level name c i d =
     \<lparr>lname = name, lset = comp_set c, lindex = i, lid = did d, lcid = cid c\<rparr>"

definition comp_ref :: "lcomp \<Rightarrow> cref" where
  "comp_ref lc = (case lc of (ch, name, c) \<Rightarrow>
     \<lparr>chain = ch, local_name = name, own_set = comp_set c,
      own_index = (if comp_set c = None then Some PNone else None), oid = cid c\<rparr>)"

text \<open>
  \<^verbatim>\<open>block.component_objects(ctype, descend_into=False)\<close>: the components of that type
  declared on the block data, in declaration order.
\<close>

definition local_objects :: "ctype \<Rightarrow> level list \<Rightarrow> cdata \<Rightarrow> lcomp list" where
  "local_objects ct ch b =
     map (\<lambda>(name, c). (ch, name, c)) (filter (\<lambda>(name, c). ctype c = ct) (children b))"

text \<open>
  \<^verbatim>\<open>block.component_objects(ctype)\<close>, with no \<^verbatim>\<open>active\<close> filter: the components of the block
  data, then those of every block data below it, depth first in declaration and index
  order (Pyomo's prefix traversal).
\<close>

lemma size_cdata_member:
  "(i, d) \<in> set (cdata c) \<Longrightarrow> size d < size c"
proof (cases c)
  case (Component ct n s ds)
  assume "(i, d) \<in> set (cdata c)"
  with Component have "(i, d) \<in> set ds" by simp
  then have "size_prod (\<lambda>x. 0) size (i, d) \<le> size_list (size_prod (\<lambda>x. 0) size) ds"
    by (rule size_list_estimation') simp
  with Component show ?thesis by simp
qed

lemma size_children_member:
  "(name, c) \<in> set cs \<Longrightarrow> size c < size (ComponentData n cs)"
proof -
  assume "(name, c) \<in> set cs"
  then have "size_prod (\<lambda>x. 0) size (name, c) \<le> size_list (size_prod (\<lambda>x. 0) size) cs"
    by (rule size_list_estimation') simp
  then show ?thesis by simp
qed

function component_objects :: "ctype \<Rightarrow> level list \<Rightarrow> cdata \<Rightarrow> lcomp list" where
  "component_objects ct ch (ComponentData n cs) =
     map (\<lambda>(name, c). (ch, name, c)) (filter (\<lambda>(name, c). ctype c = ct) cs) @
     concat (map (\<lambda>(name, c).
        if ctype c = Block
        then concat (map (\<lambda>(i, d). component_objects ct (block_level name c i d # ch) d)
                       (cdata c))
        else []) cs)"
  by pat_completeness auto
termination
proof (relation "measure (\<lambda>(ct, ch, b). size b)")
  show "wf (measure (\<lambda>(ct, ch, b). size b))" by simp
next
  fix ct :: ctype and ch :: "level list" and n :: nat and cs :: "(string \<times> component) list"
    and x :: "string \<times> component" and name :: string and c :: component
    and y :: "pyval \<times> cdata" and i :: pyval and d :: cdata
  assume "x \<in> set cs" "(name, c) = x" "ctype c = Block" "y \<in> set (cdata c)" "(i, d) = y"
  then have "size d < size c" "size c < size (ComponentData n cs)"
    using size_cdata_member [of i d c] size_children_member [of name c cs n] by auto
  then show "((ct, block_level name c i d # ch, d), ct, ch, ComponentData n cs)
      \<in> measure (\<lambda>(ct, ch, b). size b)"
    by simp
qed

text \<open>\<^verbatim>\<open>block.component_data_objects(Var)\<close>: the data objects of those components.\<close>

definition component_data_objects :: "ctype \<Rightarrow> level list \<Rightarrow> cdata \<Rightarrow> cref list" where
  "component_data_objects ct ch b =
     concat (map (\<lambda>(ch', name, c).
        map (\<lambda>(i, d). \<lparr>chain = ch', local_name = name, own_set = comp_set c,
                        own_index = Some i, oid = did d\<rparr>) (cdata c))
       (component_objects ct ch b))"

text \<open>
  The \<^verbatim>\<open>visited\<close> sets: an object whose \<^verbatim>\<open>id\<close> was seen earlier in the loop is skipped.
\<close>

fun skip_visited :: "('a \<Rightarrow> nat) \<Rightarrow> nat list \<Rightarrow> 'a list \<Rightarrow> 'a list" where
  "skip_visited ident visited [] = []"
| "skip_visited ident visited (x # xs) =
     (if ident x \<in> set visited then skip_visited ident visited xs
      else x # skip_visited ident (ident x # visited) xs)"

text \<open>
  \<^verbatim>\<open>comp.getname(fully_qualified=True, relative_to=fs)\<close> followed by
  \<^verbatim>\<open>fs_src.find_component(name)\<close>: the name spells the blocks between \<^verbatim>\<open>fs\<close> and the
  component with their indices, and \<^verbatim>\<open>find_component\<close> walks them, giving \<^verbatim>\<open>None\<close> when a
  step is missing.
\<close>

definition getname :: "level list \<Rightarrow> nat \<Rightarrow> route" where
  "getname ch fs = map (\<lambda>l. (lname l, lindex l)) (rev (takeWhile (\<lambda>l. lid l \<noteq> fs) ch))"

definition find_component :: "cdata \<Rightarrow> route \<Rightarrow> string \<Rightarrow> component option" where
  "find_component b route name =
     (case resolve b route of None \<Rightarrow> None | Some p \<Rightarrow> map_of (children p) name)"

text \<open>
  \<^verbatim>\<open>local_parent = getattr(local_parent, r[0])[r[1]]\<close> over a route, outside any \<^verbatim>\<open>try\<close>.
\<close>

fun follow :: "cdata \<Rightarrow> route \<Rightarrow> error + cdata" where
  "follow local_parent [] = Inr local_parent"
| "follow local_parent (r # rs) =
     (case getattr local_parent (fst r) of
        Inl e \<Rightarrow> Inl e
      | Inr c \<Rightarrow> (case getitem c (snd r) of Inl e \<Rightarrow> Inl e | Inr d \<Rightarrow> follow d rs))"

text \<open>
  \<^verbatim>\<open>var_source[index].value\<close>: only variable data have a value. \<^verbatim>\<open>var_src.value\<close> on the
  component itself: only a scalar variable has one.
\<close>

definition value_at :: "store \<Rightarrow> component \<Rightarrow> pyval \<Rightarrow> error + int option" where
  "value_at src c index =
     (case getitem c index of
        Inl e \<Rightarrow> Inl e
      | Inr d \<Rightarrow> if ctype c = Var then Inr (var_value src (did d)) else Inl AttributeError)"

definition value_of :: "store \<Rightarrow> component \<Rightarrow> error + int option" where
  "value_of src c =
     (if ctype c = Var \<and> comp_set c = None
      then (case map_of (cdata c) PNone of
              Some d \<Rightarrow> Inr (var_value src (did d))
            | None \<Rightarrow> Inl AttributeError)
      else Inl AttributeError)"

text \<open>
  The guarded assignment all copy loops share:
  \<^verbatim>\<open>if not copy_fixed and v.fixed: continue\<close>, then \<^verbatim>\<open>v.set_value(source value)\<close>, where
  reading the source value may raise.
\<close>

definition copy_into :: "bool \<Rightarrow> nat \<Rightarrow> error + int option \<Rightarrow> store \<Rightarrow> store \<times> error option" where
  "copy_into copy_fixed d source st =
     (if \<not> copy_fixed \<and> fixed st d then (st, None)
      else (case source of
              Inl e \<Rightarrow> (st, Some e)
            | Inr v \<Rightarrow> (set_value st d v, None)))"

section \<open>Copying values\<close>

text \<open>
  The flowsheets are block data; the target comes with the chain that starts at its own
  level, so that the components found below it know their way up. The source values are
  read from a store of their own, which the copy does not write.

  \<^verbatim>\<open>copy_values_at_time\<close>, the body of the loop over the variables of the target.
\<close>

definition copy_var_at_time ::
  "pset \<Rightarrow> nat \<Rightarrow> cdata \<Rightarrow> store \<Rightarrow> pyval \<Rightarrow> pyval \<Rightarrow> bool \<Rightarrow> lcomp \<Rightarrow> store \<Rightarrow> store \<times> error option" where
  "copy_var_at_time time_target fs fs_src src t_target t_source copy_fixed lc st =
     (case lc of (ch, name, var_target) \<Rightarrow>
       (case is_explicitly_indexed_by (comp_set var_target) [time_target] of
          Inl e \<Rightarrow> (st, Some e)
        | Inr False \<Rightarrow> (st, None)
        | Inr True \<Rightarrow>
            (case find_component fs_src (getname ch fs) name of
               None \<Rightarrow> (warning st name, None)
             | Some var_source \<Rightarrow>
                 if dim (comp_set var_target) = 1
                 then (case getitem var_target t_target of
                         Inl e \<Rightarrow> (st, Some e)
                       | Inr d \<Rightarrow>
                           copy_into copy_fixed (did d) (value_at src var_source t_source) st)
                 else if dim (comp_set var_target) \<ge> 2
                 then (case get_index_set_except (comp_set var_target) [time_target] of
                         Inl e \<Rightarrow> (st, Some e)
                       | Inr index_info \<Rightarrow>
                           for_each (\<lambda>non_time_index st.
                               case index_getter index_info non_time_index [t_source] of
                                 Inl e \<Rightarrow> (st, Some e)
                               | Inr source_index \<Rightarrow>
                                   (case index_getter index_info non_time_index [t_target] of
                                      Inl e \<Rightarrow> (st, Some e)
                                    | Inr target_index \<Rightarrow>
                                        (case getitem var_target target_index of
                                           Inl e \<Rightarrow> (st, Some e)
                                         | Inr d \<Rightarrow>
                                             copy_into copy_fixed (did d)
                                               (value_at src var_source source_index) st)))
                             (projection_members (set_except index_info)) st)
                 else (st, None))))"

text \<open>
  The value a variable data object inside a time-indexed block is given: the block data
  of the source at the source index, the route from the target block data down to the
  variable replayed there, then the variable's name and index.
\<close>

definition the_index :: "cref \<Rightarrow> pyval" where
  "the_index v = (case own_index v of Some i \<Rightarrow> i | None \<Rightarrow> PNone)"

definition source_in_block :: "store \<Rightarrow> component \<Rightarrow> pyval \<Rightarrow> nat \<Rightarrow> cref \<Rightarrow> error + int option" where
  "source_in_block src blk_source source_index target_data var_target =
     (case getitem blk_source source_index of
        Inl e \<Rightarrow> Inl e
      | Inr local_parent \<Rightarrow>
          (case path_from_block var_target target_data False of
             Inl e \<Rightarrow> Inl e
           | Inr route \<Rightarrow>
               (case follow local_parent route of
                  Inl e \<Rightarrow> Inl e
                | Inr p \<Rightarrow>
                    (case getattr p (local_name var_target) of
                       Inl e \<Rightarrow> Inl e
                     | Inr var_source \<Rightarrow> value_at src var_source (the_index var_target)))))"

definition copy_block_vars ::
  "store \<Rightarrow> bool \<Rightarrow> component \<Rightarrow> pyval \<Rightarrow> level list \<Rightarrow> string \<Rightarrow> component \<Rightarrow> pyval \<Rightarrow> store
     \<Rightarrow> store \<times> error option" where
  "copy_block_vars src copy_fixed blk_source source_index ch name blk_target target_index st =
     (case getitem blk_target target_index of
        Inl e \<Rightarrow> (st, Some e)
      | Inr b \<Rightarrow>
          for_each (\<lambda>var_target st.
              copy_into copy_fixed (oid var_target)
                (source_in_block src blk_source source_index (did b) var_target) st)
            (skip_visited oid []
               (component_data_objects Var
                  (block_level name blk_target (normalize_index target_index) b # ch) b))
            st)"

text \<open>\<^verbatim>\<open>copy_values_at_time\<close>, the body of the loop over the blocks of the target.\<close>

definition copy_block_at_time ::
  "pset \<Rightarrow> nat \<Rightarrow> cdata \<Rightarrow> store \<Rightarrow> pyval \<Rightarrow> pyval \<Rightarrow> bool \<Rightarrow> lcomp \<Rightarrow> store \<Rightarrow> store \<times> error option" where
  "copy_block_at_time time_target fs fs_src src t_target t_source copy_fixed lc st =
     (case lc of (ch, name, blk_target) \<Rightarrow>
       (case is_explicitly_indexed_by (comp_set blk_target) [time_target] of
          Inl e \<Rightarrow> (st, Some e)
        | Inr False \<Rightarrow> (st, None)
        | Inr True \<Rightarrow>
            (case find_component fs_src (getname ch fs) name of
               None \<Rightarrow> (warning st name, None)
             | Some blk_source \<Rightarrow>
                 if dim (comp_set blk_target) = 1
                 then copy_block_vars src copy_fixed blk_source t_source ch name blk_target
                        t_target st
                 else if dim (comp_set blk_target) \<ge> 2
                 then (case get_index_set_except (comp_set blk_target) [time_target] of
                         Inl e \<Rightarrow> (st, Some e)
                       | Inr index_info \<Rightarrow>
                           for_each (\<lambda>non_time_index st.
                               case index_getter index_info non_time_index [t_source] of
                                 Inl e \<Rightarrow> (st, Some e)
                               | Inr source_index \<Rightarrow>
                                   (case index_getter index_info non_time_index [t_target] of
                                      Inl e \<Rightarrow> (st, Some e)
                                    | Inr target_index \<Rightarrow>
                                        copy_block_vars src copy_fixed blk_source source_index
                                          ch name blk_target target_index st))
                             (projection_members (set_except index_info)) st)
                 else (st, None))))"

definition lcomp_id :: "lcomp \<Rightarrow> nat" where
  "lcomp_id lc = (case lc of (ch, name, c) \<Rightarrow> cid c)"

text \<open>
  \<^verbatim>\<open>copy_values_at_time(fs_tgt, fs_src, t_target, t_source, copy_fixed)\<close>; \<^verbatim>\<open>fs_tgt.time\<close> is
  passed along. An exception ends the call with the store as it is at that moment.
\<close>

definition copy_values_at_time ::
  "level list \<Rightarrow> cdata \<Rightarrow> pset \<Rightarrow> cdata \<Rightarrow> store \<Rightarrow> pyval \<Rightarrow> pyval \<Rightarrow> bool \<Rightarrow> store \<Rightarrow> store \<times> error option" where
  "copy_values_at_time ch fs_tgt time_target fs_src src t_target t_source copy_fixed st =
     (case for_each
             (copy_var_at_time time_target (did fs_tgt) fs_src src t_target t_source copy_fixed)
             (skip_visited lcomp_id [] (component_objects Var ch fs_tgt)) st of
        (st', Some e) \<Rightarrow> (st', Some e)
      | (st', None) \<Rightarrow>
          for_each
            (copy_block_at_time time_target (did fs_tgt) fs_src src t_target t_source copy_fixed)
            (skip_visited lcomp_id [] (component_objects Block ch fs_tgt)) st')"

text \<open>
  \<^verbatim>\<open>copy_non_time_indexed_values\<close>, first loop. The branch for a missing source variable
  builds its message from \<^verbatim>\<open>varname\<close>, a name the function never binds: evaluating it
  raises \<^verbatim>\<open>NameError\<close>.
\<close>

definition copy_values_of ::
  "bool \<Rightarrow> (pyval \<Rightarrow> error + int option) \<Rightarrow> component \<Rightarrow> store \<Rightarrow> store \<times> error option" where
  "copy_values_of copy_fixed source var_tgt st =
     for_each (\<lambda>(index, d) st. copy_into copy_fixed (did d) (source index) st) (cdata var_tgt) st"

definition copy_flowsheet_var ::
  "pset \<Rightarrow> cdata \<Rightarrow> store \<Rightarrow> bool \<Rightarrow> lcomp \<Rightarrow> store \<Rightarrow> store \<times> error option" where
  "copy_flowsheet_var time_tgt fs_src src copy_fixed lc st =
     (case lc of (ch, name, var_tgt) \<Rightarrow>
       (case is_explicitly_indexed_by (comp_set var_tgt) [time_tgt] of
          Inl e \<Rightarrow> (st, Some e)
        | Inr True \<Rightarrow> (st, None)
        | Inr False \<Rightarrow>
            (case find_component fs_src [] name of
               None \<Rightarrow> (st, Some NameError)
             | Some var_src \<Rightarrow>
                 copy_values_of copy_fixed (\<lambda>index. value_of src var_src) var_tgt st)))"

text \<open>
  \<^verbatim>\<open>copy_non_time_indexed_values\<close>, second loop: the variables declared on the data of
  every block that is not indexed by time, explicitly or implicitly. Both \<^verbatim>\<open>except\<close>
  branches read \<^verbatim>\<open>outlvl\<close>, which is neither a parameter nor a variable of the function:
  they end in \<^verbatim>\<open>NameError\<close>.
\<close>

definition copy_block_var ::
  "pset \<Rightarrow> nat \<Rightarrow> cdata \<Rightarrow> store \<Rightarrow> bool \<Rightarrow> lcomp \<Rightarrow> store \<Rightarrow> store \<times> error option" where
  "copy_block_var time_tgt fs fs_src src copy_fixed lc st =
     (case lc of (ch, name, var_tgt) \<Rightarrow>
       (case is_explicitly_indexed_by (comp_set var_tgt) [time_tgt] of
          Inl e \<Rightarrow> (st, Some e)
        | Inr True \<Rightarrow> (st, None)
        | Inr False \<Rightarrow>
            (case (case path_from_block (comp_ref lc) fs False of
                     Inl e \<Rightarrow> Inl e
                   | Inr route \<Rightarrow> follow fs_src route) of
               Inl e \<Rightarrow> (st, Some NameError)
             | Inr local_parent \<Rightarrow>
                 (case getattr local_parent name of
                    Inl e \<Rightarrow> (st, Some e)
                  | Inr var_src \<Rightarrow>
                      copy_values_of copy_fixed (value_at src var_src) var_tgt st))))"

definition copy_untimed_block ::
  "pset \<Rightarrow> nat \<Rightarrow> cdata \<Rightarrow> store \<Rightarrow> bool \<Rightarrow> lcomp \<Rightarrow> store \<Rightarrow> store \<times> error option" where
  "copy_untimed_block time_tgt fs fs_src src copy_fixed lc st =
     (case lc of (ch, name, blk_tgt) \<Rightarrow>
       if is_implicitly_indexed_by (comp_ref lc) time_tgt None
          \<or> is_explicitly_indexed_by (comp_set blk_tgt) [time_tgt] = Inr True
       then (st, None)
       else for_each (\<lambda>(b_index, b) st.
                for_each (copy_block_var time_tgt fs fs_src src copy_fixed)
                  (skip_visited lcomp_id []
                     (local_objects Var (block_level name blk_tgt b_index b # ch) b)) st)
              (cdata blk_tgt) st)"

definition copy_non_time_indexed_values ::
  "level list \<Rightarrow> cdata \<Rightarrow> pset \<Rightarrow> cdata \<Rightarrow> store \<Rightarrow> bool \<Rightarrow> store \<Rightarrow> store \<times> error option" where
  "copy_non_time_indexed_values ch fs_tgt time_tgt fs_src src copy_fixed st =
     (case for_each (copy_flowsheet_var time_tgt fs_src src copy_fixed)
             (skip_visited lcomp_id [] (local_objects Var ch fs_tgt)) st of
        (st', Some e) \<Rightarrow> (st', Some e)
      | (st', None) \<Rightarrow>
          for_each (copy_untimed_block time_tgt (did fs_tgt) fs_src src copy_fixed)
            (skip_visited lcomp_id [] (component_objects Block ch fs_tgt)) st')"

text \<open>The store with every \<^verbatim>\<open>fixed\<close> flag cleared.\<close>

definition unfixed :: "store \<Rightarrow> store" where
  "unfixed st = st\<lparr>fixed := \<lambda>d. False\<rparr>"

section \<open>Relations between stores\<close>

text \<open>
  \<open>frame st st'\<close>: from \<open>st\<close> to \<open>st'\<close> no \<^verbatim>\<open>fixed\<close> or \<^verbatim>\<open>active\<close> flag has changed and no
  fixed variable has changed its value.
\<close>

definition frame :: "store \<Rightarrow> store \<Rightarrow> bool" where
  "frame st st' =
     (fixed st' = fixed st \<and> active st' = active st \<and>
      (\<forall>d. fixed st d \<longrightarrow> var_value st' d = var_value st d))"

text \<open>
  Two runs side by side. \<open>both I p q\<close>: the two results have raised alike and their
  stores are related by \<open>I\<close>. \<open>coupled I cf1 cf2\<close>: on stores related by \<open>I\<close> the guard of
  the assignment decides alike under \<^verbatim>\<open>copy_fixed\<close> = \<open>cf1\<close> and \<open>cf2\<close>, and \<open>I\<close> survives an
  assignment and a warning made in both.
\<close>

definition both :: "(store \<Rightarrow> store \<Rightarrow> bool) \<Rightarrow> store \<times> error option \<Rightarrow> store \<times> error option \<Rightarrow> bool" where
  "both I p q = (I (fst p) (fst q) \<and> snd p = snd q)"

definition coupled :: "(store \<Rightarrow> store \<Rightarrow> bool) \<Rightarrow> bool \<Rightarrow> bool \<Rightarrow> bool" where
  "coupled I cf1 cf2 =
     (\<forall>a b. I a b \<longrightarrow>
        (\<forall>d. (\<not> cf1 \<and> fixed a d) = (\<not> cf2 \<and> fixed b d)) \<and>
        (\<forall>d v. I (set_value a d v) (set_value b d v)) \<and>
        (\<forall>m. I (warning a m) (warning b m)))"

text \<open>
  \<open>twin s1 s2 a b\<close>: \<open>a\<close> and \<open>b\<close> are reached from \<open>s1\<close> and \<open>s2\<close> by the same assignments:
  the flags are those of the start, which agree on \<^verbatim>\<open>fixed\<close>, and every variable either
  has the same value in both or still has its initial value in both.
\<close>

definition twin :: "store \<Rightarrow> store \<Rightarrow> store \<Rightarrow> store \<Rightarrow> bool" where
  "twin s1 s2 a b =
     (fixed a = fixed b \<and> fixed a = fixed s1 \<and> fixed b = fixed s2 \<and>
      active a = active s1 \<and> active b = active s2 \<and>
      (\<forall>d. var_value a d = var_value b d \<or>
           (var_value a d = var_value s1 d \<and> var_value b d = var_value s2 d)))"

text \<open>
  \<open>unfixed_twin a b\<close>: \<open>b\<close> has the values, activity and warnings of \<open>a\<close> and no fixed
  variable.
\<close>

definition unfixed_twin :: "store \<Rightarrow> store \<Rightarrow> bool" where
  "unfixed_twin a b =
     (var_value a = var_value b \<and> active a = active b \<and> warnings a = warnings b \<and>
      fixed b = (\<lambda>d. False))"

section \<open>Deactivation at points\<close>

text \<open>
  The state of \<^verbatim>\<open>deactivate_model_at\<close> while it runs: the store, the \<^verbatim>\<open>visited\<close> set, and
  the dictionary \<^verbatim>\<open>deactivated\<close> from points to the data objects deactivated there.
\<close>

record deact =
  dstore :: store
  seen :: "nat list"
  deactivated :: "(pyval \<times> nat list) list"

definition deactivate :: "nat \<Rightarrow> store \<Rightarrow> store" where
  "deactivate d st = st\<lparr>active := (active st)(d := False)\<rparr>"

definition append_at :: "pyval \<Rightarrow> nat \<Rightarrow> (pyval \<times> nat list) list \<Rightarrow> (pyval \<times> nat list) list" where
  "append_at pt d dict = map (\<lambda>(k, ds). if k = pt then (k, ds @ [d]) else (k, ds)) dict"

text \<open>
  The body of the loop over the components: the \<^verbatim>\<open>visited\<close> test, the two indexing tests,
  and the two nested loops over the other indices and the points. Only the \<^verbatim>\<open>KeyError\<close> of
  \<^verbatim>\<open>comp[index]\<close> is caught, logged and passed over.
\<close>

definition deactivate_comp :: "pset \<Rightarrow> pyval list \<Rightarrow> lcomp \<Rightarrow> deact \<Rightarrow> deact \<times> error option" where
  "deactivate_comp cset pts lc s =
     (case lc of (ch, name, c) \<Rightarrow>
       if cid c \<in> set (seen s) then (s, None)
       else
         (case is_explicitly_indexed_by (comp_set c) [cset] of
            Inl e \<Rightarrow> (s\<lparr>seen := cid c # seen s\<rparr>, Some e)
          | Inr False \<Rightarrow> (s\<lparr>seen := cid c # seen s\<rparr>, None)
          | Inr True \<Rightarrow>
              if is_implicitly_indexed_by (comp_ref lc) cset None
              then (s\<lparr>seen := cid c # seen s\<rparr>, None)
              else
                (case get_index_set_except (comp_set c) [cset] of
                   Inl e \<Rightarrow> (s\<lparr>seen := cid c # seen s\<rparr>, Some e)
                 | Inr index_info \<Rightarrow>
                     for_each (\<lambda>non_cset_index.
                         for_each (\<lambda>pt s.
                             case index_getter index_info non_cset_index [pt] of
                               Inl e \<Rightarrow> (s, Some e)
                             | Inr index \<Rightarrow>
                                 (case getitem c index of
                                    Inl e \<Rightarrow> (s\<lparr>dstore := warning (dstore s) name\<rparr>, None)
                                  | Inr d \<Rightarrow>
                                      (s\<lparr>dstore := deactivate (did d) (dstore s),
                                         deactivated := append_at pt (did d) (deactivated s)\<rparr>,
                                       None)))
                           pts)
                       (projection_members (set_except index_info))
                       (s\<lparr>seen := cid c # seen s\<rparr>))))"

text \<open>
  \<^verbatim>\<open>b.component_objects([Block, Constraint], active=True)\<close> is a generator: the loop body
  runs between its steps, and the generator reads the \<^verbatim>\<open>active\<close> flags when it comes to a
  component or to a block data object, after the deactivations made so far. It yields the
  active blocks and constraints of a block data object, then goes down into the active
  data of its active blocks, depth first.
\<close>

lemma for_each_cong [fundef_cong]:
  "xs = ys \<Longrightarrow> s = t \<Longrightarrow> (\<And>x u. x \<in> set ys \<Longrightarrow> f x u = g x u)
     \<Longrightarrow> for_each f xs s = for_each g ys t"
proof (induction ys arbitrary: xs s t)
  case Nil
  then show ?case by simp
next
  case (Cons y ys)
  from Cons.prems(3) have "f y t = g y t" by simp
  moreover have "for_each f ys u = for_each g ys u" for u
    by (rule Cons.IH) (simp_all add: Cons.prems(3))
  ultimately show ?case using Cons.prems(1,2)
    by (simp split: prod.splits option.splits)
qed

lemma size_nested:
  "(name :: string, c) \<in> set cs \<Longrightarrow> (i, d) \<in> set (cdata c)
     \<Longrightarrow> size d < Suc (size_list (size_prod (\<lambda>x. 0) size) cs)"
  using size_cdata_member [of i d c] size_children_member [of name c cs 0] by simp

function deactivate_walk :: "pset \<Rightarrow> pyval list \<Rightarrow> level list \<Rightarrow> cdata \<Rightarrow> deact \<Rightarrow> deact \<times> error option" where
  "deactivate_walk cset pts ch (ComponentData n cs) s =
     (case for_each (\<lambda>(name, c) s.
               if (ctype c = Block \<or> ctype c = Constraint) \<and> active (dstore s) (cid c)
               then deactivate_comp cset pts (ch, name, c) s
               else (s, None)) cs s of
        (s', Some e) \<Rightarrow> (s', Some e)
      | (s', None) \<Rightarrow>
          for_each (\<lambda>(name, c) s.
              if ctype c = Block \<and> active (dstore s) (cid c)
              then for_each (\<lambda>(i, d) s.
                       if active (dstore s) (did d)
                       then deactivate_walk cset pts (block_level name c i d # ch) d s
                       else (s, None)) (cdata c) s
              else (s, None)) cs s')"
  by pat_completeness auto
termination
  by (relation "measure (\<lambda>(cset, pts, ch, b, s). size b)") (auto intro: size_nested)

text \<open>
  \<^verbatim>\<open>deactivate_model_at(b, cset, pts)\<close>. \<^verbatim>\<open>pts\<close> is one value or a list of values. The
  result is the store after the call, with the exception raised or the dictionary
  returned.
\<close>

datatype pts_arg = One pyval | Several "pyval list"

fun points :: "pts_arg \<Rightarrow> pyval list" where
  "points (One pt) = [pt]"
| "points (Several pts) = pts"

definition deactivate_model_at ::
  "level list \<Rightarrow> cdata \<Rightarrow> pset \<Rightarrow> pts_arg \<Rightarrow> store \<Rightarrow> store \<times> (error + (pyval \<times> nat list) list)" where
  "deactivate_model_at ch b cset pts_arg st =
     (let pts = points pts_arg in
      if \<not> list_all (\<lambda>pt. pt \<in> set (members cset)) pts then (st, Inl ValueError)
      else
        (case (if active st (did b)
               then deactivate_walk cset pts ch b
                      \<lparr>dstore = st, seen = [],
                       deactivated = map (\<lambda>pt. (pt, [])) (rev (remdups (rev pts)))\<rparr>
               else (\<lparr>dstore = st, seen = [],
                      deactivated = map (\<lambda>pt. (pt, [])) (rev (remdups (rev pts)))\<rparr>, None)) of
           (s, Some e) \<Rightarrow> (dstore s, Inl e)
         | (s, None) \<Rightarrow> (dstore s, Inr (deactivated s))))"

section \<open>Example sets\<close>

definition set_time :: pset where
  "set_time = \<lparr>sid = 1, dimen = 1, members = [Atom 0, Atom 1, Atom 2]\<rparr>"

definition set_loc :: pset where
  "set_loc = \<lparr>sid = 2, dimen = 1, members = [Atom 10, Atom 11]\<rparr>"

definition set_pair :: pset where
  "set_pair = \<lparr>sid = 3, dimen = 2, members = [Tup [Atom 20, Atom 21], Tup [Atom 22, Atom 23]]\<rparr>"

text \<open>
  Levels of a hierarchy: the top-level model, a block indexed by \<open>set_time\<close> (its data at
  time 1), and a block indexed by \<open>set_loc\<close> (its data at location 10).
\<close>

definition top_level :: level where
  "top_level = \<lparr>lname = ''model'', lset = None, lindex = PNone, lid = 100, lcid = 100\<rparr>"

definition time_block_level :: level where
  "time_block_level =
     \<lparr>lname = ''unit'', lset = Some (SimpleSet set_time), lindex = Atom 1, lid = 111, lcid = 110\<rparr>"

definition loc_block_level :: level where
  "loc_block_level =
     \<lparr>lname = ''stage'', lset = Some (SimpleSet set_loc), lindex = Atom 10, lid = 121, lcid = 120\<rparr>"

text \<open>
  A target hierarchy: the flowsheet holds a block \<open>unit\<close> indexed by \<open>set_time\<close>, with
  data at times 0 and 1 only; each holds a scalar variable \<open>x\<close> and a variable \<open>y\<close>
  indexed by \<open>set_loc\<close>. A source variable is named by the chain above it.
\<close>

definition unit_data :: "nat \<Rightarrow> cdata" where
  "unit_data k = ComponentData (211 + 20 * k)
     [(''x'', Component Var (212 + 20 * k) None [(PNone, ComponentData (212 + 20 * k) [])]),
      (''y'', Component Var (213 + 20 * k) (Some (SimpleSet set_loc))
         [(Atom 10, ComponentData (214 + 20 * k) []), (Atom 11, ComponentData (215 + 20 * k) [])])]"

definition tgt_root :: cdata where
  "tgt_root = ComponentData 200
     [(''unit'', Component Block 210 (Some (SimpleSet set_time))
        [(Atom 0, unit_data 0), (Atom 1, unit_data 1)])]"

definition src_var :: "string \<Rightarrow> pyval \<Rightarrow> pyval option \<Rightarrow> cref" where
  "src_var name t idx =
     \<lparr>chain = [time_block_level\<lparr>lindex := t\<rparr>, top_level], local_name = name,
      own_set = None, own_index = idx, oid = 0\<rparr>"

text \<open>
  A flowsheet: scalar variables \<open>p\<close> and \<open>q\<close>, a variable \<open>T\<close> indexed by \<open>set_time\<close>, and
  the block \<open>unit\<close> of the target hierarchy above, indexed by \<open>set_time\<close>. A second
  flowsheet lacks \<open>p\<close>. In the source store every variable has its identity as value; in
  the target store no variable has a value, and \<open>T[1]\<close> and \<open>q\<close> are fixed.
\<close>

definition fs_level :: level where
  "fs_level = \<lparr>lname = ''fs'', lset = None, lindex = PNone, lid = 200, lcid = 200\<rparr>"

definition flowsheet :: cdata where
  "flowsheet = ComponentData 200
     [(''p'', Component Var 201 None [(PNone, ComponentData 201 [])]),
      (''q'', Component Var 202 None [(PNone, ComponentData 202 [])]),
      (''T'', Component Var 203 (Some (SimpleSet set_time))
         [(Atom 0, ComponentData 204 []), (Atom 1, ComponentData 205 []),
          (Atom 2, ComponentData 206 [])]),
      (''unit'', Component Block 210 (Some (SimpleSet set_time))
         [(Atom 0, unit_data 0), (Atom 1, unit_data 1)])]"

definition flowsheet_without_p :: cdata where
  "flowsheet_without_p = ComponentData 200
     [(''q'', Component Var 202 None [(PNone, ComponentData 202 [])])]"

definition source_store :: store where
  "source_store = \<lparr>var_value = (\<lambda>d. Some (int d)), fixed = (\<lambda>d. False),
     active = (\<lambda>d. True), warnings = []\<rparr>"

definition target_store :: store where
  "target_store = \<lparr>var_value = (\<lambda>d. None), fixed = (\<lambda>d. d = 205 \<or> d = 202),
     active = (\<lambda>d. True), warnings = []\<rparr>"

text \<open>
  A model to deactivate in: a constraint \<open>balance\<close> indexed by \<open>set_loc\<close> and \<open>set_time\<close>,
  and a block \<open>unit\<close> indexed by \<open>set_time\<close> with data at times 0 and 1, each holding a
  scalar constraint \<open>c\<close>. Everything is active.
\<close>

definition plant_level :: level where
  "plant_level = \<lparr>lname = ''plant'', lset = None, lindex = PNone, lid = 400, lcid = 400\<rparr>"

definition plant :: cdata where
  "plant = ComponentData 400
     [(''balance'', Component Constraint 410 (Some (SetProduct [set_loc, set_time]))
         [(Tup [Atom 10, Atom 0], ComponentData 411 []),
          (Tup [Atom 10, Atom 1], ComponentData 412 []),
          (Tup [Atom 10, Atom 2], ComponentData 413 []),
          (Tup [Atom 11, Atom 0], ComponentData 414 []),
          (Tup [Atom 11, Atom 1], ComponentData 415 []),
          (Tup [Atom 11, Atom 2], ComponentData 416 [])]),
      (''unit'', Component Block 420 (Some (SimpleSet set_time))
         [(Atom 0, ComponentData 421
             [(''c'', Component Constraint 422 None [(PNone, ComponentData 422 [])])]),
          (Atom 1, ComponentData 431
             [(''c'', Component Constraint 432 None [(PNone, ComponentData 432 [])])])])]"

definition all_active :: store where
  "all_active = \<lparr>var_value = (\<lambda>d. None), fixed = (\<lambda>d. False), active = (\<lambda>d. True),
     warnings = []\<rparr>"

text \<open>
  A flowsheet whose variables are not indexed by time: a scalar variable \<open>q\<close>, a variable
  \<open>k\<close> indexed by \<open>set_loc\<close>, and a scalar block \<open>tank\<close> that holds a variable \<open>k\<close> of its
  own, indexed by \<open>set_loc\<close> too. A second flowsheet is the same without the variable \<open>k\<close>
  of the flowsheet. In the store \<open>some_fixed\<close> no variable has a value, and \<open>q\<close>, \<open>k[10]\<close>
  and \<open>tank.k[10]\<close> are fixed.
\<close>

definition column_level :: level where
  "column_level = \<lparr>lname = ''fs'', lset = None, lindex = PNone, lid = 300, lcid = 300\<rparr>"

definition tank :: component where
  "tank = Component Block 310 None
     [(PNone, ComponentData 311
        [(''k'', Component Var 312 (Some (SimpleSet set_loc))
            [(Atom 10, ComponentData 313 []), (Atom 11, ComponentData 314 [])])])]"

definition column :: cdata where
  "column = ComponentData 300
     [(''q'', Component Var 301 None [(PNone, ComponentData 301 [])]),
      (''k'', Component Var 302 (Some (SimpleSet set_loc))
         [(Atom 10, ComponentData 303 []), (Atom 11, ComponentData 304 [])]),
      (''tank'', tank)]"

definition column_without_k :: cdata where
  "column_without_k = ComponentData 300
     [(''q'', Component Var 301 None [(PNone, ComponentData 301 [])]),
      (''tank'', tank)]"

definition some_fixed :: store where
  "some_fixed = \<lparr>var_value = (\<lambda>d. None), fixed = (\<lambda>d. d = 301 \<or> d = 303 \<or> d = 313),
     active = (\<lambda>d. True), warnings = []\<rparr>"

section \<open>Locating a factor\<close>

lemma location_loop_found:
  "location_loop ss subs i True loc =
     (if occurrences subs ss = 0 then Inr loc else Inl ValueError)"
  by (induction ss arbitrary: i) (auto simp: occurrences_def)

lemma location_loop_fresh:
  "location_loop ss subs i False loc =
     (if occurrences subs ss = 0 then Inr loc
      else if occurrences subs ss = 1
        then Inr (Some (i + sum_list (map dimen (preceding subs ss))))
      else Inl ValueError)"
  by (induction ss arbitrary: i) (auto simp: occurrences_def preceding_def location_loop_found)

text \<open>
  C7, as the code has it. \<^verbatim>\<open>get_location_of_coordinate_set\<close> raises \<^verbatim>\<open>ValueError\<close> when
  the subs is not 1-dimensional or is found a second time among the factors; a subs
  that is no factor at all leaves \<^verbatim>\<open>loc\<close> at its initial \<^verbatim>\<open>None\<close>, which is returned;
  a subs that occurs exactly once gives the sum of the dimensions of the factors
  before it.
\<close>

theorem get_location_of_coordinate_set_result:
  "get_location_of_coordinate_set setprod subs =
     (if dimen subs \<noteq> 1 \<or> 1 < occurrences subs (subsets setprod) then Inl ValueError
      else if occurrences subs (subsets setprod) = 0 then Inr None
      else Inr (Some (sum_list (map dimen (preceding subs (subsets setprod))))))"
  by (auto simp: get_location_of_coordinate_set_def location_loop_fresh)

text \<open>
  C7 as stated fails: \<open>set_time\<close> is 1-dimensional and does not occur among the factors
  of the product of \<open>set_loc\<close> and \<open>set_pair\<close>, and the function returns \<^verbatim>\<open>None\<close>
  where the claim has it raise.
\<close>

theorem get_location_of_coordinate_set_absent:
  "dimen set_time = 1 \<and> occurrences set_time [set_loc, set_pair] = 0 \<and>
   get_location_of_coordinate_set (SetProduct [set_loc, set_pair]) set_time = Inr None"
  by (simp add: get_location_of_coordinate_set_def occurrences_def set_time_def set_loc_def
      set_pair_def)

theorem get_location_of_coordinate_set_witness:
  "get_location_of_coordinate_set (SetProduct [set_pair, set_time, set_loc]) set_time = Inr (Some 2)"
  using get_location_of_coordinate_set_result [of "SetProduct [set_pair, set_time, set_loc]" set_time]
  by (simp add: occurrences_def preceding_def set_time_def set_loc_def set_pair_def)

section \<open>Explicit indexing\<close>




section \<open>The value of a set along the hierarchy\<close>

lemma explicit_single_total:
  "\<exists>b. is_explicitly_indexed_by c [wrt] = Inr b"
  by (cases c) (auto simp: is_explicitly_indexed_by_def Let_def split: option.splits)

lemma implicit_index_loop_found:
  "implicit_index_loop up wrt v True =
     (if filter (\<lambda>(c, i). is_explicitly_indexed_by c [wrt] = Inr True)
           (map (\<lambda>b. (lset b, lindex b)) up) = []
      then Inr v else Inl ValueError)"
proof (induction up)
  case Nil
  show ?case by simp
next
  case (Cons b up)
  obtain x where "is_explicitly_indexed_by (lset b) [wrt] = Inr x"
    using explicit_single_total by blast
  with Cons show ?case by (cases x) auto
qed

lemma implicit_index_loop_fresh:
  "implicit_index_loop up wrt v False =
     (case filter (\<lambda>(c, i). is_explicitly_indexed_by c [wrt] = Inr True)
             (map (\<lambda>b. (lset b, lindex b)) up) of
        [] \<Rightarrow> Inr v
      | [(c, i)] \<Rightarrow> get_index_of_set c i wrt
      | (c, i) # _ # _ \<Rightarrow>
          (case get_index_of_set c i wrt of Inl e \<Rightarrow> Inl e | Inr u \<Rightarrow> Inl ValueError))"
proof (induction up)
  case Nil
  show ?case by simp
next
  case (Cons b up)
  obtain x where x: "is_explicitly_indexed_by (lset b) [wrt] = Inr x"
    using explicit_single_total by blast
  show ?case
  proof (cases x)
    case True
    with x show ?thesis
      by (auto simp: implicit_index_loop_found split: sum.splits list.splits)
  next
    case False
    with x Cons show ?thesis by simp
  qed
qed

lemma get_index_of_set_value:
  "is_explicitly_indexed_by (Some ix) [wrt] = Inr True \<Longrightarrow>
   get_location_of_coordinate_set ix wrt = Inr (Some loc) \<Longrightarrow>
   loc < length (tuple_of index) \<Longrightarrow>
   get_index_of_set (Some ix) index wrt = Inr (tuple_of index ! loc)"
  by (simp add: get_index_of_set_def)

text \<open>
  C8, as the code has it. \<^verbatim>\<open>get_implicit_index_of_set\<close> tests the owning component and
  then walks every block above the record, whether or not the owning component carries
  the set. When nothing carries it the result is \<^verbatim>\<open>None\<close>; when exactly one of the owning
  component and the blocks above carries it the result is what \<^verbatim>\<open>get_index_of_set\<close>
  gives there; when more than one carries it (the owning component counted with the
  blocks above) the call raises. In particular, for a record whose owning component is
  the only carrier, the result is the record's own coordinate at the offset that
  \<^verbatim>\<open>get_location_of_coordinate_set\<close> computes.
\<close>

theorem get_implicit_index_of_set_carriers:
  "get_implicit_index_of_set owner index ancestors wrt =
     (case carriers owner index ancestors wrt of
        [] \<Rightarrow> Inr PNone
      | [(c, i)] \<Rightarrow> get_index_of_set c i wrt
      | (c, i) # _ # _ \<Rightarrow>
          (case get_index_of_set c i wrt of Inl e \<Rightarrow> Inl e | Inr u \<Rightarrow> Inl ValueError)) \<and>
   (is_explicitly_indexed_by (Some ix) [wrt] = Inr True \<and>
    get_location_of_coordinate_set ix wrt = Inr (Some loc) \<and>
    loc < length (tuple_of index) \<and>
    list_all (\<lambda>b. is_explicitly_indexed_by (lset b) [wrt] \<noteq> Inr True) ancestors \<longrightarrow>
      get_implicit_index_of_set (Some ix) index ancestors wrt = Inr (tuple_of index ! loc))"
proof (intro conjI impI)
  obtain x where x: "is_explicitly_indexed_by owner [wrt] = Inr x"
    using explicit_single_total by blast
  show "get_implicit_index_of_set owner index ancestors wrt =
     (case carriers owner index ancestors wrt of
        [] \<Rightarrow> Inr PNone
      | [(c, i)] \<Rightarrow> get_index_of_set c i wrt
      | (c, i) # _ # _ \<Rightarrow>
          (case get_index_of_set c i wrt of Inl e \<Rightarrow> Inl e | Inr u \<Rightarrow> Inl ValueError))"
  proof (cases x)
    case True
    with x show ?thesis
      by (auto simp: get_implicit_index_of_set_def carriers_def implicit_index_loop_found
          split: sum.splits list.splits)
  next
    case False
    with x show ?thesis
      by (simp add: get_implicit_index_of_set_def carriers_def implicit_index_loop_fresh)
  qed
next
  assume h: "is_explicitly_indexed_by (Some ix) [wrt] = Inr True \<and>
    get_location_of_coordinate_set ix wrt = Inr (Some loc) \<and>
    loc < length (tuple_of index) \<and>
    list_all (\<lambda>b. is_explicitly_indexed_by (lset b) [wrt] \<noteq> Inr True) ancestors"
  then have "filter (\<lambda>(c, i). is_explicitly_indexed_by c [wrt] = Inr True)
           (map (\<lambda>b. (lset b, lindex b)) ancestors) = []"
    by (auto simp: filter_empty_conv list_all_iff)
  with h show "get_implicit_index_of_set (Some ix) index ancestors wrt = Inr (tuple_of index ! loc)"
    by (simp add: get_implicit_index_of_set_def implicit_index_loop_found get_index_of_set_value)
qed

text \<open>
  C8 as stated fails: a variable indexed by \<open>set_loc\<close> and \<open>set_time\<close> inside a block
  indexed by \<open>set_time\<close>. The owning component is explicitly indexed by the set and only
  one block above carries it, yet the walk over the blocks raises.
\<close>

theorem get_implicit_index_of_set_raises:
  "is_explicitly_indexed_by (Some (SetProduct [set_loc, set_time])) [set_time] = Inr True \<and>
   carriers None PNone [time_block_level, top_level] set_time = [(lset time_block_level, Atom 1)] \<and>
   get_implicit_index_of_set (Some (SetProduct [set_loc, set_time])) (Tup [Atom 10, Atom 2])
     [time_block_level, top_level] set_time = Inl ValueError"
  by (simp add: get_implicit_index_of_set_def get_index_of_set_def carriers_def
      is_explicitly_indexed_by_def in_component_set_def get_location_of_coordinate_set_def
      tuple_of_def time_block_level_def top_level_def set_time_def set_loc_def)

theorem get_implicit_index_of_set_witness:
  "is_explicitly_indexed_by (Some (SetProduct [set_loc, set_time])) [set_time] = Inr True \<and>
   get_location_of_coordinate_set (SetProduct [set_loc, set_time]) set_time = Inr (Some 1) \<and>
   list_all (\<lambda>b. is_explicitly_indexed_by (lset b) [set_time] \<noteq> Inr True) [loc_block_level, top_level] \<and>
   get_implicit_index_of_set (Some (SetProduct [set_loc, set_time])) (Tup [Atom 10, Atom 2])
     [loc_block_level, top_level] set_time = Inr (Atom 2) \<and>
   get_implicit_index_of_set None PNone [time_block_level, top_level] set_time = Inr (Atom 1) \<and>
   get_implicit_index_of_set None PNone [loc_block_level, top_level] set_time = Inr PNone"
  using get_implicit_index_of_set_carriers [of "Some (SetProduct [set_loc, set_time])"
      "Tup [Atom 10, Atom 2]" "[loc_block_level, top_level]" set_time
      "SetProduct [set_loc, set_time]" 1]
    get_implicit_index_of_set_carriers [of None PNone "[time_block_level, top_level]" set_time
      "SetProduct [set_loc, set_time]" 1]
    get_implicit_index_of_set_carriers [of None PNone "[loc_block_level, top_level]" set_time
      "SetProduct [set_loc, set_time]" 1]
  by (simp add: get_index_of_set_def carriers_def
      is_explicitly_indexed_by_def in_component_set_def get_location_of_coordinate_set_def
      tuple_of_def time_block_level_def loc_block_level_def top_level_def set_time_def set_loc_def)

section \<open>Replaying a path in a second hierarchy\<close>

lemma find_loop_hit:
  "resolve b route = Some d \<Longrightarrow> find_loop b route allow_miss = Inr (Some d)"
proof (induction route arbitrary: b)
  case Nil
  then show ?case by simp
next
  case (Cons r rs)
  obtain name idx where r: "r = (name, idx)" by (cases r)
  from Cons.prems r obtain c d' where
    "map_of (children b) name = Some c" "map_of (cdata c) (normalize_index idx) = Some d'"
    "resolve d' rs = Some d"
    by (auto split: option.splits)
  with Cons.IH [of d'] r show ?case
    by (simp add: getattr_def getitem_def)
qed

lemma find_loop_miss:
  "resolve b route = None \<Longrightarrow>
   find_loop b route True = Inr None \<and>
   (find_loop b route False = Inl AttributeError \<or> find_loop b route False = Inl KeyError)"
proof (induction route arbitrary: b)
  case Nil
  then show ?case by simp
next
  case (Cons r rs)
  obtain name idx where r: "r = (name, idx)" by (cases r)
  show ?case
  proof (cases "map_of (children b) name")
    case None
    with r show ?thesis by (simp add: getattr_def)
  next
    case (Some c)
    show ?thesis
    proof (cases "map_of (cdata c) (normalize_index idx)")
      case None
      with Some r show ?thesis by (simp add: getattr_def getitem_def)
    next
      case (Some d')
      with \<open>map_of (children b) name = Some c\<close> Cons.prems r have "resolve d' rs = None"
        by simp
      from Cons.IH [OF this] Some \<open>map_of (children b) name = Some c\<close> r show ?thesis
        by (simp add: getattr_def getitem_def)
    qed
  qed
qed

text \<open>
  C9. Once \<^verbatim>\<open>path_from_block\<close> has given the route of the source component,
  \<^verbatim>\<open>find_comp_in_block\<close> returns the entity that the route, the component's local name and
  its index lead to in the target hierarchy when every step resolves there; when a name
  or an index is missing at any step, it returns \<^verbatim>\<open>None\<close> if \<^verbatim>\<open>allow_miss\<close> is true, and
  otherwise lets the \<^verbatim>\<open>AttributeError\<close> or \<^verbatim>\<open>KeyError\<close> of the failed step escape.
\<close>

theorem find_comp_in_block_replay:
  "path_from_block src_comp src_block False = Inr route \<longrightarrow>
     (case corresponding tgt_block route (local_name src_comp) (own_index src_comp) of
        Some e \<Rightarrow> find_comp_in_block tgt_block src_block src_comp allow_miss = Inr (Some e)
      | None \<Rightarrow>
          find_comp_in_block tgt_block src_block src_comp True = Inr None \<and>
          (find_comp_in_block tgt_block src_block src_comp False = Inl AttributeError \<or>
           find_comp_in_block tgt_block src_block src_comp False = Inl KeyError))"
proof
  assume p: "path_from_block src_comp src_block False = Inr route"
  show "case corresponding tgt_block route (local_name src_comp) (own_index src_comp) of
        Some e \<Rightarrow> find_comp_in_block tgt_block src_block src_comp allow_miss = Inr (Some e)
      | None \<Rightarrow>
          find_comp_in_block tgt_block src_block src_comp True = Inr None \<and>
          (find_comp_in_block tgt_block src_block src_comp False = Inl AttributeError \<or>
           find_comp_in_block tgt_block src_block src_comp False = Inl KeyError)"
  proof (cases "resolve tgt_block route")
    case None
    from find_loop_miss [OF None] None p show ?thesis
      by (auto simp: corresponding_def find_comp_in_block_def)
  next
    case (Some b)
    note hit = find_loop_hit [OF Some]
    show ?thesis
    proof (cases "map_of (children b) (local_name src_comp)")
      case None
      with Some p hit show ?thesis
        by (simp add: corresponding_def find_comp_in_block_def getattr_def)
    next
      case c: (Some c)
      show ?thesis
      proof (cases "own_index src_comp")
        case None
        with c Some p hit show ?thesis
          by (simp add: corresponding_def find_comp_in_block_def getattr_def)
      next
        case i: (Some i)
        with c Some p hit show ?thesis
          by (cases "map_of (cdata c) (normalize_index i)")
             (simp_all add: corresponding_def find_comp_in_block_def getattr_def getitem_def)
      qed
    qed
  qed
qed

theorem find_comp_in_block_witness:
  "path_from_block (src_var ''y'' (Atom 1) (Some (Atom 11))) 100 False = Inr [(''unit'', Atom 1)] \<and>
   find_comp_in_block tgt_root 100 (src_var ''y'' (Atom 1) (Some (Atom 11))) False
     = Inr (Some (DataObject (ComponentData 235 []))) \<and>
   path_from_block (src_var ''x'' (Atom 2) (Some PNone)) 100 False = Inr [(''unit'', Atom 2)] \<and>
   corresponding tgt_root [(''unit'', Atom 2)] ''x'' (Some PNone) = None \<and>
   find_comp_in_block tgt_root 100 (src_var ''x'' (Atom 2) (Some PNone)) True = Inr None \<and>
   find_comp_in_block tgt_root 100 (src_var ''x'' (Atom 2) (Some PNone)) False = Inl KeyError"
  using find_comp_in_block_replay [of "src_var ''y'' (Atom 1) (Some (Atom 11))" 100
      "[(''unit'', Atom 1)]" tgt_root False]
    find_comp_in_block_replay [of "src_var ''x'' (Atom 2) (Some PNone)" 100
      "[(''unit'', Atom 2)]" tgt_root False]
  by (simp add: path_from_block_def corresponding_def normalize_index_def src_var_def
      find_comp_in_block_def getattr_def getitem_def
      tgt_root_def unit_data_def time_block_level_def top_level_def)

section \<open>Projection and completion\<close>

text \<open>
  C2 at a product with a 2-dimensional factor before the omitted set: a component indexed
  by \<open>set_pair\<close> and \<open>set_time\<close>, with \<open>set_time\<close> omitted. The projection is \<open>set_pair\<close>,
  of dimension 2 = 3 - 1. \<^verbatim>\<open>location\<close> records the position of \<open>set_time\<close> among the
  factors, 1, and \<^verbatim>\<open>_complete_index\<close> inserts the time value at that position of the
  index tuple: completing \<open>(20, 21)\<close> with time 1 gives \<open>(20, 1, 21)\<close>, which is no element
  of the component's index product, and the element \<open>(20, 21, 1)\<close> is never produced.
\<close>

theorem get_index_set_except_misplaces:
  "completed_indices (Some (SetProduct [set_pair, set_time])) [set_time] [Atom 1] =
     Inr [Inr (Tup [Atom 20, Atom 1, Atom 21]), Inr (Tup [Atom 22, Atom 1, Atom 23])] \<and>
   Tup [Atom 20, Atom 1, Atom 21] \<notin> set (index_members (SetProduct [set_pair, set_time])) \<and>
   Tup [Atom 20, Atom 21, Atom 1] \<in> set (index_members (SetProduct [set_pair, set_time]))"
  by (simp add: completed_indices_def get_index_set_except_def is_explicitly_indexed_by_def
      in_component_set_def occurrences_def complete_index_def tuple_of_def
      set_pair_def set_time_def)

text \<open>
  C5 at the same product: \<^verbatim>\<open>get_location_of_coordinate_set\<close> counts the dimensions of the
  factors before \<open>set_time\<close> and gives offset 2, but the completer, given the positions
  that \<^verbatim>\<open>get_index_set_except\<close> computes, has put the time value 1 at offset 1; at offset
  2 of the completed index stands the coordinate 21 of the projection index.
\<close>

theorem complete_index_offset_mismatch:
  "locate_sets [set_pair, set_time] [set_time] 0 = ([(1, 0)], [set_pair]) \<and>
   complete_index [(1, 0)] (Tup [Atom 20, Atom 21]) [Atom 1] = Inr (Tup [Atom 20, Atom 1, Atom 21]) \<and>
   get_location_of_coordinate_set (SetProduct [set_pair, set_time]) set_time = Inr (Some 2) \<and>
   tuple_of (Tup [Atom 20, Atom 1, Atom 21]) ! 2 = Atom 21"
  by (simp add: complete_index_def tuple_of_def get_location_of_coordinate_set_def
      set_pair_def set_time_def)

text \<open>
  Where every factor is 1-dimensional the position of a factor is its offset, as in the
  component indexed by \<open>set_loc\<close> and \<open>set_time\<close>: the projection is \<open>set_loc\<close> and the
  completer gives the two indices of the product at time 1.
\<close>

lemma get_index_set_except_location_time:
  "completed_indices (Some (SetProduct [set_loc, set_time])) [set_time] [Atom 1] =
     Inr [Inr (Tup [Atom 10, Atom 1]), Inr (Tup [Atom 11, Atom 1])]"
  by (simp add: completed_indices_def get_index_set_except_def is_explicitly_indexed_by_def
      in_component_set_def occurrences_def complete_index_def tuple_of_def
      set_loc_def set_time_def)

text \<open>
  In general, for one omitted set and a projection that is not trivial:
  \<^verbatim>\<open>get_index_set_except\<close> records the number of factors before the set, and the
  completer inserts the value after that many coordinates of the projection index, while
  \<^verbatim>\<open>get_location_of_coordinate_set\<close>, for a 1-dimensional set, returns the sum of the
  dimensions of those factors. The two agree when every factor before the set is
  1-dimensional.
\<close>

lemma locate_sets_one:
  "fst (locate_sets fs [s] k) =
     map (\<lambda>j. (j, 0)) (filter (\<lambda>j. sid (fs ! (j - k)) = sid s) [k ..< k + length fs])"
proof (induction fs arbitrary: k)
  case Nil
  show ?case by simp
next
  case (Cons f fs)
  have shift: "filter (\<lambda>j. sid ((f # fs) ! (j - k)) = sid s) [Suc k ..< Suc k + length fs]
      = filter (\<lambda>j. sid (fs ! (j - Suc k)) = sid s) [Suc k ..< Suc k + length fs]"
  proof (rule filter_cong)
    fix j assume "j \<in> set [Suc k ..< Suc k + length fs]"
    then have "j - k = Suc (j - Suc k)" by auto
    then show "(sid ((f # fs) ! (j - k)) = sid s) = (sid (fs ! (j - Suc k)) = sid s)"
      by simp
  qed simp
  have "k < k + length (f # fs)" by simp
  then have "[k ..< k + length (f # fs)] = k # [Suc k ..< k + length (f # fs)]"
    by (rule upt_conv_Cons)
  then have "[k ..< k + length (f # fs)] = k # [Suc k ..< Suc k + length fs]"
    by (simp del: upt_Suc)
  with Cons [of "Suc k"] shift show ?case
    by (simp add: split_beta del: upt_Suc)
qed

lemma positions_of_single:
  "occurrences s fs = 1 \<Longrightarrow>
   filter (\<lambda>j. sid (fs ! j) = sid s) [0 ..< length fs] = [length (preceding s fs)]"
proof (induction fs rule: rev_induct)
  case Nil
  then show ?case by (simp add: occurrences_def)
next
  case (snoc f fs)
  show ?case
  proof (cases "sid f = sid s")
    case True
    with snoc.prems have none: "filter (\<lambda>g. sid g = sid s) fs = []"
      by (simp add: occurrences_def)
    then have all: "\<forall>g \<in> set fs. sid g \<noteq> sid s"
      by (simp add: filter_empty_conv)
    then have "filter (\<lambda>j. sid ((fs @ [f]) ! j) = sid s) [0 ..< length fs] = []"
      by (auto simp: filter_empty_conv nth_append)
    moreover from all True have "preceding s (fs @ [f]) = fs"
      by (simp add: preceding_def takeWhile_append2)
    ultimately show ?thesis using True by simp
  next
    case False
    with snoc.prems have one: "occurrences s fs = 1"
      by (simp add: occurrences_def)
    then have "\<exists>g \<in> set fs. sid g = sid s"
      by (auto simp: occurrences_def filter_empty_conv dest!: arg_cong [where f = "\<lambda>n. n = 0"])
    then have p: "preceding s (fs @ [f]) = preceding s fs"
      by (auto simp: preceding_def takeWhile_append1)
    have "filter (\<lambda>j. sid ((fs @ [f]) ! j) = sid s) [0 ..< length fs]
        = filter (\<lambda>j. sid (fs ! j) = sid s) [0 ..< length fs]"
      by (rule filter_cong) (auto simp: nth_append)
    with snoc.IH [OF one] p False show ?thesis by simp
  qed
qed

lemma complete_index_one:
  "complete_index [(p, 0)] idx [v] =
     Inr (Tup (take p (tuple_of idx) @ tuple_of v @ drop p (tuple_of idx)))"
  by (simp add: complete_index_def)

lemma index_getter_position:
  assumes "get_index_set_except (Some (SetProduct fs)) [s] = Inr i"
    and "set_except i \<noteq> TrivialSet"
  shows "index_getter i idx [v] =
      Inr (Tup (take (length (preceding s fs)) (tuple_of idx) @ tuple_of v @
                drop (length (preceding s fs)) (tuple_of idx)))"
    and "dimen s = 1 \<Longrightarrow>
      get_location_of_coordinate_set (SetProduct fs) s =
        Inr (Some (sum_list (map dimen (preceding s fs))))"
proof -
  from assms(1) have once: "occurrences s fs = 1"
    by (auto simp: get_index_set_except_def split: sum.splits bool.splits if_splits)
  have "fst (locate_sets fs [s] 0) = [(length (preceding s fs), 0)]"
    using locate_sets_one [of fs s 0] positions_of_single [OF once] by simp
  with assms once show "index_getter i idx [v] =
      Inr (Tup (take (length (preceding s fs)) (tuple_of idx) @ tuple_of v @
                drop (length (preceding s fs)) (tuple_of idx)))"
    by (auto simp: get_index_set_except_def complete_index_one
        split: sum.splits bool.splits if_splits prod.splits)
  from once show "dimen s = 1 \<Longrightarrow>
      get_location_of_coordinate_set (SetProduct fs) s =
        Inr (Some (sum_list (map dimen (preceding s fs))))"
    by (simp add: get_location_of_coordinate_set_def location_loop_fresh)
qed

section \<open>The copy loops, one run\<close>

lemma frame_refl: "frame st st"
  by (simp add: frame_def)

lemma frame_trans: "frame a b \<Longrightarrow> frame b c \<Longrightarrow> frame a c"
  by (simp add: frame_def)

lemma frame_warning: "frame st (warning st m)"
  by (simp add: frame_def warning_def)

lemma frame_copy_into: "frame st (fst (copy_into False d source st))"
  by (cases source) (auto simp: copy_into_def frame_def set_value_def)

lemma frame_for_each:
  assumes "\<And>x s. frame s (fst (body x s))"
  shows "frame st (fst (for_each body xs st))"
proof (induction xs arbitrary: st)
  case Nil
  show ?case by (simp add: frame_refl)
next
  case (Cons x xs)
  obtain s' r where b: "body x st = (s', r)" by (cases "body x st")
  with assms [of st x] have f: "frame st s'" by simp
  show ?case
  proof (cases r)
    case None
    with b f Cons [of s'] show ?thesis by (auto intro: frame_trans)
  next
    case (Some e)
    with b f show ?thesis by simp
  qed
qed

lemma frame_copy_values_of:
  "frame st (fst (copy_values_of False source var_tgt st))"
  unfolding copy_values_of_def
  by (rule frame_for_each) (auto simp: frame_copy_into split: prod.splits)

lemma frame_copy_var_at_time:
  "frame st (fst (copy_var_at_time time_target fs fs_src src t_target t_source False lc st))"
  unfolding copy_var_at_time_def
  by (auto simp: frame_refl frame_warning frame_copy_into
      split: prod.splits sum.splits option.splits bool.splits
      intro!: frame_for_each)

lemma frame_copy_block_vars:
  "frame st (fst (copy_block_vars src False blk_source source_index ch name blk_target
     target_index st))"
  unfolding copy_block_vars_def
  by (auto simp: frame_refl frame_copy_into split: sum.splits intro!: frame_for_each)

lemma frame_copy_block_at_time:
  "frame st (fst (copy_block_at_time time_target fs fs_src src t_target t_source False lc st))"
  unfolding copy_block_at_time_def
  by (auto simp: frame_refl frame_warning frame_copy_block_vars
      split: prod.splits sum.splits option.splits bool.splits
      intro!: frame_for_each)

lemma frame_then:
  assumes "frame st (fst (f st))" and "\<And>s. frame s (fst (g s))"
  shows "frame st (fst (case f st of (s, Some e) \<Rightarrow> (s, Some e) | (s, None) \<Rightarrow> g s))"
proof -
  obtain s r where fs: "f st = (s, r)" by (cases "f st")
  with assms(1) have "frame st s" by simp
  with fs assms(2) [of s] show ?thesis
    by (cases r) (auto intro: frame_trans)
qed

lemma frame_copy_values_at_time:
  "frame st (fst (copy_values_at_time ch fs_tgt time_target fs_src src t_target t_source False st))"
  unfolding copy_values_at_time_def
  by (rule frame_then)
     (auto intro!: frame_for_each simp: frame_copy_var_at_time frame_copy_block_at_time)

lemma frame_copy_flowsheet_var:
  "frame st (fst (copy_flowsheet_var time_tgt fs_src src False lc st))"
  unfolding copy_flowsheet_var_def
  by (auto simp: frame_refl frame_copy_values_of
      split: prod.splits sum.splits option.splits bool.splits)

lemma frame_copy_block_var:
  "frame st (fst (copy_block_var time_tgt fs fs_src src False lc st))"
  unfolding copy_block_var_def
  by (auto simp: frame_refl frame_copy_values_of
      split: prod.splits sum.splits option.splits bool.splits)

lemma frame_copy_untimed_block:
  "frame st (fst (copy_untimed_block time_tgt fs fs_src src False lc st))"
  unfolding copy_untimed_block_def
  by (auto simp: frame_refl frame_copy_block_var split: prod.splits
      intro!: frame_for_each)

lemma frame_copy_non_time_indexed_values:
  "frame st (fst (copy_non_time_indexed_values ch fs_tgt time_tgt fs_src src False st))"
  unfolding copy_non_time_indexed_values_def
  by (rule frame_then)
     (auto intro!: frame_for_each simp: frame_copy_flowsheet_var frame_copy_untimed_block)

section \<open>The copy loops, two runs side by side\<close>

lemma both_return: "I a b \<Longrightarrow> both I (a, e) (b, e)"
  by (simp add: both_def)

lemma both_warning: "coupled I cf1 cf2 \<Longrightarrow> I a b \<Longrightarrow> both I (warning a m, e) (warning b m, e)"
  by (simp add: both_def coupled_def)

lemma both_copy_into:
  "coupled I cf1 cf2 \<Longrightarrow> I a b \<Longrightarrow> both I (copy_into cf1 d source a) (copy_into cf2 d source b)"
proof -
  assume c: "coupled I cf1 cf2" and i: "I a b"
  then have g: "(\<not> cf1 \<and> fixed a d) = (\<not> cf2 \<and> fixed b d)"
    and s: "\<And>v. I (set_value a d v) (set_value b d v)"
    by (simp_all add: coupled_def)
  show ?thesis
  proof (cases "\<not> cf1 \<and> fixed a d")
    case True
    with g have "\<not> cf2 \<and> fixed b d" by simp
    with True i show ?thesis by (simp add: copy_into_def both_def)
  next
    case False
    with g have "\<not> (\<not> cf2 \<and> fixed b d)" by simp
    with False i s show ?thesis
      by (cases source) (auto simp: copy_into_def both_def)
  qed
qed

lemma both_for_each:
  assumes "\<And>x a b. I a b \<Longrightarrow> both I (f x a) (g x b)" and "I a b"
  shows "both I (for_each f xs a) (for_each g xs b)"
  using assms(2)
proof (induction xs arbitrary: a b)
  case Nil
  then show ?case by (simp add: both_def)
next
  case (Cons x xs)
  obtain a' r where fa: "f x a = (a', r)" by (cases "f x a")
  obtain b' r' where gb: "g x b = (b', r')" by (cases "g x b")
  from assms(1) [OF Cons.prems, of x] fa gb have i: "I a' b'" and r: "r' = r"
    by (simp_all add: both_def)
  show ?case
  proof (cases r)
    case None
    with fa gb r Cons.IH [OF i] show ?thesis by simp
  next
    case (Some e)
    with fa gb r i show ?thesis by (simp add: both_def)
  qed
qed

lemma both_then:
  assumes "both I (f a) (g b)" and "\<And>a' b'. I a' b' \<Longrightarrow> both I (f2 a') (g2 b')"
  shows "both I (case f a of (s, Some e) \<Rightarrow> (s, Some e) | (s, None) \<Rightarrow> f2 s)
                (case g b of (s, Some e) \<Rightarrow> (s, Some e) | (s, None) \<Rightarrow> g2 s)"
proof -
  obtain a' r where fa: "f a = (a', r)" by (cases "f a")
  obtain b' r' where gb: "g b = (b', r')" by (cases "g b")
  from assms(1) fa gb have i: "I a' b'" and r: "r' = r"
    by (simp_all add: both_def)
  from fa gb r i assms(2) [OF i] show ?thesis
    by (cases r) (simp_all add: both_def)
qed

lemma both_copy_values_of:
  "coupled I cf1 cf2 \<Longrightarrow> I a b \<Longrightarrow>
   both I (copy_values_of cf1 source var_tgt a) (copy_values_of cf2 source var_tgt b)"
  unfolding copy_values_of_def
  by (rule both_for_each) (auto intro: both_copy_into)

lemma both_copy_var_at_time:
  "coupled I cf1 cf2 \<Longrightarrow> I a b \<Longrightarrow>
   both I (copy_var_at_time time_target fs fs_src src t_target t_source cf1 lc a)
          (copy_var_at_time time_target fs fs_src src t_target t_source cf2 lc b)"
  unfolding copy_var_at_time_def
  by (auto split: prod.splits sum.splits option.splits bool.splits
      intro!: both_for_each both_warning both_copy_into intro: both_return)

lemma both_copy_block_vars:
  "coupled I cf1 cf2 \<Longrightarrow> I a b \<Longrightarrow>
   both I (copy_block_vars src cf1 blk_source source_index ch name blk_target target_index a)
          (copy_block_vars src cf2 blk_source source_index ch name blk_target target_index b)"
  unfolding copy_block_vars_def
  by (auto split: sum.splits intro!: both_for_each both_return both_copy_into)

lemma both_copy_block_at_time:
  "coupled I cf1 cf2 \<Longrightarrow> I a b \<Longrightarrow>
   both I (copy_block_at_time time_target fs fs_src src t_target t_source cf1 lc a)
          (copy_block_at_time time_target fs fs_src src t_target t_source cf2 lc b)"
  unfolding copy_block_at_time_def
  by (auto split: prod.splits sum.splits option.splits bool.splits
      intro!: both_for_each both_warning both_copy_block_vars intro: both_return)

lemma both_copy_values_at_time:
  "coupled I cf1 cf2 \<Longrightarrow> I a b \<Longrightarrow>
   both I (copy_values_at_time ch fs_tgt time_target fs_src src t_target t_source cf1 a)
          (copy_values_at_time ch fs_tgt time_target fs_src src t_target t_source cf2 b)"
  unfolding copy_values_at_time_def
  by (rule both_then)
     (auto intro!: both_for_each both_copy_var_at_time both_copy_block_at_time)

lemma both_copy_flowsheet_var:
  "coupled I cf1 cf2 \<Longrightarrow> I a b \<Longrightarrow>
   both I (copy_flowsheet_var time_tgt fs_src src cf1 lc a)
          (copy_flowsheet_var time_tgt fs_src src cf2 lc b)"
  unfolding copy_flowsheet_var_def
  by (auto split: prod.splits sum.splits option.splits bool.splits
      intro!: both_return both_copy_values_of)

lemma both_copy_block_var:
  "coupled I cf1 cf2 \<Longrightarrow> I a b \<Longrightarrow>
   both I (copy_block_var time_tgt fs fs_src src cf1 lc a)
          (copy_block_var time_tgt fs fs_src src cf2 lc b)"
  unfolding copy_block_var_def
  by (auto split: prod.splits sum.splits option.splits bool.splits
      intro!: both_return both_copy_values_of)

lemma both_copy_untimed_block:
  "coupled I cf1 cf2 \<Longrightarrow> I a b \<Longrightarrow>
   both I (copy_untimed_block time_tgt fs fs_src src cf1 lc a)
          (copy_untimed_block time_tgt fs fs_src src cf2 lc b)"
  unfolding copy_untimed_block_def
  by (auto split: prod.splits intro!: both_for_each both_return both_copy_block_var)

lemma both_copy_non_time_indexed_values:
  "coupled I cf1 cf2 \<Longrightarrow> I a b \<Longrightarrow>
   both I (copy_non_time_indexed_values ch fs_tgt time_tgt fs_src src cf1 a)
          (copy_non_time_indexed_values ch fs_tgt time_tgt fs_src src cf2 b)"
  unfolding copy_non_time_indexed_values_def
  by (rule both_then)
     (auto intro!: both_for_each both_copy_flowsheet_var both_copy_untimed_block)

lemma coupled_unfixed_twin: "coupled unfixed_twin True False"
  by (simp add: coupled_def unfixed_twin_def set_value_def warning_def)

lemma coupled_twin: "coupled (twin s1 s2) cf cf"
  by (auto simp: coupled_def twin_def set_value_def warning_def)

lemma unfixed_twin_start: "unfixed_twin st (unfixed st)"
  by (simp add: unfixed_twin_def unfixed_def)

lemma twin_start: "fixed s1 = fixed s2 \<Longrightarrow> twin s1 s2 s1 s2"
  by (simp add: twin_def)

section \<open>Fixed variables\<close>

text \<open>
  Both copy operations guard every assignment with
  \<^verbatim>\<open>if not copy_fixed and v.fixed: continue\<close>. With \<^verbatim>\<open>copy_fixed=False\<close> a variable that is
  fixed when the operation starts has the same value when it ends, however it ends.
\<close>

lemma copy_fixed_false_keeps_fixed:
  assumes "fixed st d"
  shows "var_value (fst (copy_non_time_indexed_values ch fs_tgt time_tgt fs_src src False st)) d
      = var_value st d"
    and "var_value (fst (copy_values_at_time ch fs_tgt time_tgt fs_src src t_target t_source
        False st)) d = var_value st d"
proof -
  have "frame st (fst (copy_non_time_indexed_values ch fs_tgt time_tgt fs_src src False st))"
    by (rule frame_copy_non_time_indexed_values)
  with assms show "var_value (fst (copy_non_time_indexed_values ch fs_tgt time_tgt fs_src src
      False st)) d = var_value st d"
    by (simp add: frame_def)
  have "frame st
      (fst (copy_values_at_time ch fs_tgt time_tgt fs_src src t_target t_source False st))"
    by (rule frame_copy_values_at_time)
  with assms show "var_value (fst (copy_values_at_time ch fs_tgt time_tgt fs_src src t_target
      t_source False st)) d = var_value st d"
    by (simp add: frame_def)
qed

text \<open>
  With \<^verbatim>\<open>copy_fixed=True\<close> the flags play no part: each operation leaves the values, and
  ends, exactly as it does with \<^verbatim>\<open>copy_fixed=False\<close> on the same hierarchy with no
  variable fixed. Whether a record is overwritten is then a matter of what the loops
  reach and read.
\<close>

lemma copy_fixed_true_ignores_fixed:
  "var_value (fst (copy_non_time_indexed_values ch fs_tgt time_tgt fs_src src True st))
     = var_value (fst (copy_non_time_indexed_values ch fs_tgt time_tgt fs_src src False (unfixed st)))"
  "snd (copy_non_time_indexed_values ch fs_tgt time_tgt fs_src src True st)
     = snd (copy_non_time_indexed_values ch fs_tgt time_tgt fs_src src False (unfixed st))"
  "var_value (fst (copy_values_at_time ch fs_tgt time_tgt fs_src src t_target t_source True st))
     = var_value (fst (copy_values_at_time ch fs_tgt time_tgt fs_src src t_target t_source False
         (unfixed st)))"
  "snd (copy_values_at_time ch fs_tgt time_tgt fs_src src t_target t_source True st)
     = snd (copy_values_at_time ch fs_tgt time_tgt fs_src src t_target t_source False (unfixed st))"
proof -
  have b1: "both unfixed_twin
      (copy_non_time_indexed_values ch fs_tgt time_tgt fs_src src True st)
      (copy_non_time_indexed_values ch fs_tgt time_tgt fs_src src False (unfixed st))"
    by (rule both_copy_non_time_indexed_values [OF coupled_unfixed_twin unfixed_twin_start])
  have b2: "both unfixed_twin
      (copy_values_at_time ch fs_tgt time_tgt fs_src src t_target t_source True st)
      (copy_values_at_time ch fs_tgt time_tgt fs_src src t_target t_source False (unfixed st))"
    by (rule both_copy_values_at_time [OF coupled_unfixed_twin unfixed_twin_start])
  from b1 show
    "var_value (fst (copy_non_time_indexed_values ch fs_tgt time_tgt fs_src src True st))
       = var_value (fst (copy_non_time_indexed_values ch fs_tgt time_tgt fs_src src False
           (unfixed st)))"
    "snd (copy_non_time_indexed_values ch fs_tgt time_tgt fs_src src True st)
       = snd (copy_non_time_indexed_values ch fs_tgt time_tgt fs_src src False (unfixed st))"
    by (simp_all add: both_def unfixed_twin_def)
  from b2 show
    "var_value (fst (copy_values_at_time ch fs_tgt time_tgt fs_src src t_target t_source True st))
       = var_value (fst (copy_values_at_time ch fs_tgt time_tgt fs_src src t_target t_source
           False (unfixed st)))"
    "snd (copy_values_at_time ch fs_tgt time_tgt fs_src src t_target t_source True st)
       = snd (copy_values_at_time ch fs_tgt time_tgt fs_src src t_target t_source False
           (unfixed st))"
    by (simp_all add: both_def unfixed_twin_def)
qed

text \<open>
  C3 at a flowsheet with a variable \<open>k\<close> that is indexed, by \<open>set_loc\<close> and not by time,
  whose record \<open>k[10]\<close> is fixed in the target. The first loop of
  \<^verbatim>\<open>copy_non_time_indexed_values\<close> reads \<^verbatim>\<open>var_src.value\<close> on the source variable itself,
  not \<^verbatim>\<open>var_src[index].value\<close> as its second loop and \<^verbatim>\<open>copy_values_at_time\<close> do, and an
  indexed variable has no such attribute. With \<^verbatim>\<open>copy_fixed=True\<close> the fixed scalar \<open>q\<close>
  before it is overwritten with the source value; at \<open>k[10]\<close> the operation raises
  \<^verbatim>\<open>AttributeError\<close>: the fixed record \<open>k[10]\<close> is not overwritten with the source value
  303, and the variable of the block \<open>tank\<close> is never reached.
\<close>

theorem copy_non_time_indexed_values_indexed_var:
  "fixed some_fixed 303 \<and>
   var_value some_fixed 303 = None \<and>
   value_at source_store (Component Var 302 (Some (SimpleSet set_loc))
      [(Atom 10, ComponentData 303 []), (Atom 11, ComponentData 304 [])]) (Atom 10)
     = Inr (Some 303) \<and>
   snd (copy_non_time_indexed_values [column_level] column set_time column source_store True
      some_fixed) = Some AttributeError \<and>
   map (var_value (fst (copy_non_time_indexed_values [column_level] column set_time column
      source_store True some_fixed))) [301, 303, 304, 313, 314]
     = [Some 301, None, None, None, None]"
  by code_simp

text \<open>
  Without the indexed variable of the flowsheet the same call ends normally. The second
  loop copies the indexed variable of the block record by record: with
  \<^verbatim>\<open>copy_fixed=True\<close> the fixed records \<open>q\<close> and \<open>tank.k[10]\<close> are overwritten with the
  source values, with \<^verbatim>\<open>copy_fixed=False\<close> they are left alone and \<open>tank.k[11]\<close> is copied.
\<close>

lemma copy_non_time_indexed_values_block_var:
  "snd (copy_non_time_indexed_values [column_level] column_without_k set_time column
      source_store True some_fixed) = None \<and>
   map (var_value (fst (copy_non_time_indexed_values [column_level] column_without_k set_time
      column source_store True some_fixed))) [301, 313, 314]
     = [Some 301, Some 313, Some 314] \<and>
   snd (copy_non_time_indexed_values [column_level] column_without_k set_time column
      source_store False some_fixed) = None \<and>
   map (var_value (fst (copy_non_time_indexed_values [column_level] column_without_k set_time
      column source_store False some_fixed))) [301, 313, 314]
     = [None, None, Some 314]"
  by code_simp

text \<open>
  The indexed variable of the flowsheet stops \<^verbatim>\<open>copy_non_time_indexed_values\<close> with
  \<^verbatim>\<open>copy_fixed=False\<close> as well, at its first record that is not fixed, \<open>k[11]\<close>; the
  fixed records keep their values.
\<close>

lemma copy_non_time_indexed_values_indexed_var_unfixed:
  "snd (copy_non_time_indexed_values [column_level] column set_time column source_store False
      some_fixed) = Some AttributeError \<and>
   map (var_value (fst (copy_non_time_indexed_values [column_level] column set_time column
      source_store False some_fixed))) [301, 303, 304, 313, 314]
     = [None, None, None, None, None]"
  by code_simp

text \<open>
  \<^verbatim>\<open>copy_values_at_time\<close> on the flowsheet with the time-indexed variable \<open>T\<close>, from time 0
  to time 1, where \<open>T[1]\<close> is fixed in the target: with \<^verbatim>\<open>copy_fixed=True\<close> it is
  overwritten with the value of \<open>T[0]\<close> in the source, with \<^verbatim>\<open>copy_fixed=False\<close> it keeps
  its value.
\<close>

lemma copy_values_at_time_fixed_record:
  "fixed target_store 205 \<and>
   var_value target_store 205 = None \<and>
   var_value (fst (copy_values_at_time [fs_level] flowsheet set_time flowsheet source_store
      (Atom 1) (Atom 0) True target_store)) 205 = Some 204 \<and>
   var_value (fst (copy_values_at_time [fs_level] flowsheet set_time flowsheet source_store
      (Atom 1) (Atom 0) False target_store)) 205 = None"
  by code_simp

section \<open>Repeated copies\<close>

text \<open>
  C4. The source hierarchy and its store are arguments that the operation does not write.
  A second \<^verbatim>\<open>copy_values_at_time\<close> with the same arguments, started where the first one
  ended, ends as the first one did and leaves every value and every flag of the target
  as the first one left them.
\<close>

theorem copy_values_at_time_idempotent:
  "var_value (fst (copy_values_at_time ch fs_tgt time_tgt fs_src src t_target t_source copy_fixed
       (fst (copy_values_at_time ch fs_tgt time_tgt fs_src src t_target t_source copy_fixed st))))
     = var_value (fst (copy_values_at_time ch fs_tgt time_tgt fs_src src t_target t_source
         copy_fixed st)) \<and>
   fixed (fst (copy_values_at_time ch fs_tgt time_tgt fs_src src t_target t_source copy_fixed
       (fst (copy_values_at_time ch fs_tgt time_tgt fs_src src t_target t_source copy_fixed st))))
     = fixed (fst (copy_values_at_time ch fs_tgt time_tgt fs_src src t_target t_source
         copy_fixed st)) \<and>
   active (fst (copy_values_at_time ch fs_tgt time_tgt fs_src src t_target t_source copy_fixed
       (fst (copy_values_at_time ch fs_tgt time_tgt fs_src src t_target t_source copy_fixed st))))
     = active (fst (copy_values_at_time ch fs_tgt time_tgt fs_src src t_target t_source
         copy_fixed st)) \<and>
   snd (copy_values_at_time ch fs_tgt time_tgt fs_src src t_target t_source copy_fixed
       (fst (copy_values_at_time ch fs_tgt time_tgt fs_src src t_target t_source copy_fixed st)))
     = snd (copy_values_at_time ch fs_tgt time_tgt fs_src src t_target t_source copy_fixed st)"
proof -
  define run where
    "run = copy_values_at_time ch fs_tgt time_tgt fs_src src t_target t_source copy_fixed"
  define st1 where "st1 = fst (run st)"
  define st2 where "st2 = fst (run st1)"
  have "both (twin st st) (run st) (run st)"
    unfolding run_def by (rule both_copy_values_at_time [OF coupled_twin twin_start]) simp
  then have fx: "fixed st = fixed st1" and ac: "active st1 = active st"
    by (simp_all add: both_def twin_def st1_def)
  have "both (twin st st1) (run st) (run st1)"
    unfolding run_def by (rule both_copy_values_at_time [OF coupled_twin twin_start]) (rule fx)
  then have t: "twin st st1 st1 st2" and r: "snd (run st1) = snd (run st)"
    by (simp_all add: both_def st1_def st2_def)
  have "var_value st2 d = var_value st1 d" for d
  proof -
    from t have "var_value st1 d = var_value st2 d \<or>
        (var_value st1 d = var_value st d \<and> var_value st2 d = var_value st1 d)"
      by (simp add: twin_def)
    then show ?thesis by (elim disjE conjE) simp_all
  qed
  then have "var_value st2 = var_value st1" by (rule ext)
  moreover from t have "fixed st2 = fixed st1" "active st2 = active st1"
    unfolding twin_def by blast+
  ultimately show ?thesis
    using r by (simp add: st1_def st2_def run_def)
qed

theorem copy_values_at_time_idempotent_witness:
  "var_value (fst (copy_values_at_time [fs_level] flowsheet set_time flowsheet source_store
      (Atom 1) (Atom 0) False target_store)) 232 = Some 212 \<and>
   var_value (fst (copy_values_at_time [fs_level] flowsheet set_time flowsheet source_store
      (Atom 1) (Atom 0) False
      (fst (copy_values_at_time [fs_level] flowsheet set_time flowsheet source_store
         (Atom 1) (Atom 0) False target_store)))) 232 = Some 212"
proof -
  have once: "var_value (fst (copy_values_at_time [fs_level] flowsheet set_time flowsheet
      source_store (Atom 1) (Atom 0) False target_store)) 232 = Some 212"
    by code_simp
  from copy_values_at_time_idempotent [of "[fs_level]" flowsheet set_time flowsheet
      source_store "Atom 1" "Atom 0" False target_store] once
  show ?thesis by simp
qed

section \<open>A source without the variable\<close>

text \<open>
  C1 at a source flowsheet that lacks the scalar variable \<open>p\<close> of the target and has its
  \<open>q\<close>: \<^verbatim>\<open>copy_non_time_indexed_values\<close> reaches the branch that is to log the warning,
  where the unbound name \<^verbatim>\<open>varname\<close> raises \<^verbatim>\<open>NameError\<close>. The exception escapes, no
  warning has been logged, and \<open>q\<close>, next in the loop, is not copied. With the complete
  source, \<open>q\<close> is copied.
\<close>

theorem copy_non_time_indexed_values_name_error:
  "find_component flowsheet_without_p [] ''p'' = None \<and>
   snd (copy_non_time_indexed_values [fs_level] flowsheet set_time flowsheet_without_p
      source_store True target_store) = Some NameError \<and>
   warnings (fst (copy_non_time_indexed_values [fs_level] flowsheet set_time
      flowsheet_without_p source_store True target_store)) = [] \<and>
   var_value (fst (copy_non_time_indexed_values [fs_level] flowsheet set_time
      flowsheet_without_p source_store True target_store)) 202 = None \<and>
   var_value (fst (copy_non_time_indexed_values [fs_level] flowsheet set_time flowsheet
      source_store True target_store)) 202 = Some 202"
  by code_simp

text \<open>
  \<^verbatim>\<open>copy_values_at_time\<close> does log and go on when the time-indexed variable or block
  itself is missing in the source: one warning each, no exception.
\<close>

lemma copy_values_at_time_missing_logged:
  "snd (copy_values_at_time [fs_level] flowsheet set_time flowsheet_without_p source_store
      (Atom 1) (Atom 0) True target_store) = None \<and>
   warnings (fst (copy_values_at_time [fs_level] flowsheet set_time flowsheet_without_p
      source_store (Atom 1) (Atom 0) True target_store)) = [''T'', ''unit'']"
  by code_simp

section \<open>Deactivation validates its points first\<close>

text \<open>
  C10. \<^verbatim>\<open>deactivate_model_at\<close> tests every requested point for membership in the set
  before it looks at the model: when some requested point is not a member it raises
  \<^verbatim>\<open>ValueError\<close> and the store, with the \<^verbatim>\<open>active\<close> flag of every object, is as it was.
\<close>

theorem deactivate_model_at_validates_first:
  "(\<exists>pt \<in> set (points pts). pt \<notin> set (members cset)) \<longrightarrow>
     deactivate_model_at ch b cset pts st = (st, Inl ValueError) \<and>
     active (fst (deactivate_model_at ch b cset pts st)) = active st"
  by (auto simp: deactivate_model_at_def list_all_iff)

theorem deactivate_model_at_validates_first_witness:
  "Atom 7 \<in> set (points (Several [Atom 0, Atom 7])) \<and> Atom 7 \<notin> set (members set_time) \<and>
   deactivate_model_at [plant_level] plant set_time (Several [Atom 0, Atom 7]) all_active
     = (all_active, Inl ValueError) \<and>
   active (fst (deactivate_model_at [plant_level] plant set_time (Several [Atom 0, Atom 7])
     all_active)) = active all_active"
proof -
  have m: "Atom 7 \<in> set (points (Several [Atom 0, Atom 7]))" "Atom 7 \<notin> set (members set_time)"
    by (simp_all add: set_time_def)
  then have "\<exists>pt \<in> set (points (Several [Atom 0, Atom 7])). pt \<notin> set (members set_time)"
    by blast
  with deactivate_model_at_validates_first [of "Several [Atom 0, Atom 7]" set_time
      "[plant_level]" plant all_active] m
  show ?thesis by blast
qed

text \<open>
  With points of the set, here times 0 and 2, the constraint is deactivated at both
  locations at those times and stays active at time 1; the block data at time 0 is
  deactivated, the missing block data at time 2 is logged and passed over, and the
  constraints inside the block, indexed by time only through it, are left alone.
\<close>

lemma deactivate_model_at_example:
  "snd (deactivate_model_at [plant_level] plant set_time (Several [Atom 0, Atom 2]) all_active)
     = Inr [(Atom 0, [411, 414, 421]), (Atom 2, [413, 416])] \<and>
   map (active (fst (deactivate_model_at [plant_level] plant set_time
          (Several [Atom 0, Atom 2]) all_active)))
       [411, 412, 413, 414, 415, 416, 421, 431, 422, 432]
     = [False, True, False, False, True, False, False, True, True, True] \<and>
   warnings (fst (deactivate_model_at [plant_level] plant set_time (Several [Atom 0, Atom 2])
      all_active)) = [''unit'']"
  by code_simp

end
